theory Spec2Isabelle
  imports Main "HOL-Library.Word" "HOL-Library.Sublist"
begin

section \<open>JavaScript values\<close>

text \<open>
  A JavaScript string is a sequence of 16-bit code units, and \<open>.length\<close> counts them.
  The source's literals are ASCII except for two runs of code units above \<open>0x7F\<close> in the
  comment headings, which are written out below.
\<close>

type_synonym jsstring = "16 word list"

definition lit :: "string \<Rightarrow> jsstring" where
  "lit s = map of_char s"

text \<open>
  The values the program handles: what \<open>JSON.parse\<close> and \<open>response.json()\<close> produce, and
  \<open>undefined\<close> for a missing property. Numbers are the integers (the spec's line numbers),
  which JavaScript represents exactly up to \<open>2^53\<close>; an object is the list of its own
  properties, each name once.
\<close>

datatype jsval =
    JUndefined
  | JNull
  | JBool bool
  | JNum int
  | JStr jsstring
  | JArr "jsval list"
  | JObj "(jsstring \<times> jsval) list"

text \<open>A thrown value: the program reads only \<open>.message\<close> and \<open>.status\<close> of what it catches.\<close>

record js_error =
  message :: jsstring
  status :: jsval

definition Error :: "jsstring \<Rightarrow> js_error" where
  "Error msg = \<lparr>message = msg, status = JUndefined\<rparr>"

text \<open>
  A \<open>TypeError\<close> raised by the runtime itself. Its wording is the engine's (Node's here).
\<close>

definition TypeError :: "jsstring \<Rightarrow> js_error" where
  "TypeError msg = \<lparr>message = msg, status = JUndefined\<rparr>"

definition nullish :: "jsval \<Rightarrow> bool" where
  "nullish v = (v = JUndefined \<or> v = JNull)"

fun truthy :: "jsval \<Rightarrow> bool" where
  "truthy JUndefined = False"
| "truthy JNull = False"
| "truthy (JBool b) = b"
| "truthy (JNum n) = (n \<noteq> 0)"
| "truthy (JStr s) = (s \<noteq> [])"
| "truthy (JArr xs) = True"
| "truthy (JObj ps) = True"

subsection \<open>Printing integers, joining strings\<close>

fun show_nat :: "nat \<Rightarrow> jsstring" where
  "show_nat n =
     (if n < 10 then [of_nat (48 + n)]
      else show_nat (n div 10) @ [of_nat (48 + n mod 10)])"

declare show_nat.simps [simp del]

definition show_int :: "int \<Rightarrow> jsstring" where
  "show_int i = (if i < 0 then lit ''-'' @ show_nat (nat (- i)) else show_nat (nat i))"

fun join :: "jsstring \<Rightarrow> jsstring list \<Rightarrow> jsstring" where
  "join sep [] = []"
| "join sep [x] = x"
| "join sep (x # y # ys) = x @ sep @ join sep (y # ys)"

subsection \<open>Property access\<close>

text \<open>
  \<open>v.k\<close> on a value that is neither \<open>null\<close> nor \<open>undefined\<close>, for the property names the
  program reads (\<open>candidates\<close>, \<open>content\<close>, \<open>parts\<close>, \<open>text\<close>, \<open>length\<close>, \<open>path\<close>,
  \<open>line\<close>, \<open>comment\<close>): of these only \<open>length\<close> exists on a string or an array.
\<close>

fun read_prop :: "jsval \<Rightarrow> jsstring \<Rightarrow> jsval" where
  "read_prop (JStr s) k = (if k = lit ''length'' then JNum (int (length s)) else JUndefined)"
| "read_prop (JArr xs) k = (if k = lit ''length'' then JNum (int (length xs)) else JUndefined)"
| "read_prop (JObj ps) k = (case map_of ps k of Some v \<Rightarrow> v | None \<Rightarrow> JUndefined)"
| "read_prop v k = JUndefined"

text \<open>\<open>v.k\<close>: reading a property of \<open>null\<close> or \<open>undefined\<close> throws.\<close>

definition get_prop :: "jsval \<Rightarrow> jsstring \<Rightarrow> js_error + jsval" where
  "get_prop v k =
     (if nullish v
      then Inl (TypeError (lit ''Cannot read properties of '' @
                           (if v = JNull then lit ''null'' else lit ''undefined'') @
                           lit '' (reading '' @ [0x27] @ k @ [0x27] @ lit '')''))
      else Inr (read_prop v k))"

text \<open>\<open>v[0]\<close> on a value that is neither \<open>null\<close> nor \<open>undefined\<close>.\<close>

fun index0 :: "jsval \<Rightarrow> jsval" where
  "index0 (JStr s) = (case s of [] \<Rightarrow> JUndefined | c # cs \<Rightarrow> JStr [c])"
| "index0 (JArr xs) = (case xs of [] \<Rightarrow> JUndefined | x # ys \<Rightarrow> x)"
| "index0 (JObj ps) = (case map_of ps (lit ''0'') of Some v \<Rightarrow> v | None \<Rightarrow> JUndefined)"
| "index0 v = JUndefined"

text \<open>Optional chaining, \<open>v?.k\<close> and \<open>v?.[0]\<close>: \<open>undefined\<close> when \<open>v\<close> is nullish.\<close>

definition opt_prop :: "jsval \<Rightarrow> jsstring \<Rightarrow> jsval" where
  "opt_prop v k = (if nullish v then JUndefined else read_prop v k)"

definition opt_index0 :: "jsval \<Rightarrow> jsval" where
  "opt_index0 v = (if nullish v then JUndefined else index0 v)"

text \<open>
  \<open>s.replace(pat, rep)\<close> with a string pattern: the first occurrence only. The replacement
  is taken literally (the program passes the empty string).
\<close>

fun replace_first :: "jsstring \<Rightarrow> jsstring \<Rightarrow> jsstring \<Rightarrow> jsstring" where
  "replace_first pat rep [] = (if pat = [] then rep else [])"
| "replace_first pat rep (c # cs) =
     (if take (length pat) (c # cs) = pat then rep @ drop (length pat) (c # cs)
      else c # replace_first pat rep cs)"

section \<open>The collaborators\<close>

text \<open>
  The objects exchanged with the collaborators, with the source's field names. Record fields
  are global names in Isabelle, so the arguments of the GitHub calls carry a prefix
  (\<open>pg_\<close>, \<open>cr_\<close>, \<open>cc_\<close>, \<open>gc_\<close>), and the request's \<open>method\<close> is \<open>http_method\<close>.
  \<open>json\<close> is what \<open>response.json()\<close> returns or throws.
\<close>

record http_request =
  url :: jsstring
  http_method :: jsstring
  headers :: "(jsstring \<times> jsstring) list"
  body :: jsstring

record http_response =
  ok :: bool
  statusText :: jsstring
  json :: "js_error + jsval"

record pulls_get_args =
  pg_owner :: jsstring
  pg_repo :: jsstring
  pg_pull_number :: int
  pg_headers :: "(jsstring \<times> jsstring) list"

record github_comment =
  gc_path :: jsval
  gc_line :: jsval
  gc_body :: jsval

record create_review_args =
  cr_owner :: jsstring
  cr_repo :: jsstring
  cr_pull_number :: int
  cr_event :: jsstring
  cr_body :: jsstring
  cr_comments :: "github_comment list"

record create_comment_args =
  cc_owner :: jsstring
  cc_repo :: jsstring
  cc_issue_number :: int
  cc_body :: jsstring

text \<open>
  Everything outside the program: the action's inputs and event context, the GitHub client,
  the model endpoint and the runtime's built-in functions. \<open>http_fetch w i req\<close> is the
  answer to the \<open>i\<close>-th call of \<open>fetch\<close> (counted from 0); a collaborator that throws
  answers with the thrown value. \<open>JSON_parse\<close> is applied to a string. \<open>Number_toString\<close> is
  what the runtime prints for an integer beyond \<open>2^53\<close>, where JavaScript prints only the
  digits that identify the number and, from \<open>10^21\<close> on, an exponent.
\<close>

record world =
  getInput :: "jsstring \<Rightarrow> jsstring"
  eventName :: jsstring
  context_owner :: jsstring
  context_repo :: jsstring
  context_issue_number :: int
  getOctokit :: "jsstring \<Rightarrow> js_error option"
  pulls_get :: "pulls_get_args \<Rightarrow> js_error + jsstring option"
  http_fetch :: "nat \<Rightarrow> http_request \<Rightarrow> js_error + http_response"
  JSON_parse :: "jsstring \<Rightarrow> js_error + jsval"
  JSON_stringify :: "jsval \<Rightarrow> jsstring"
  Number_toString :: "int \<Rightarrow> jsstring"
  createReview :: "create_review_args \<Rightarrow> js_error option"
  createComment :: "create_comment_args \<Rightarrow> js_error option"

text \<open>
  What a run does to the outside, in order. A posting call is logged with the collaborator's
  answer: \<open>None\<close> when it accepted, the thrown value when it did not.
\<close>

datatype event =
    Info jsstring
  | Warning jsstring
  | SetFailed jsstring
  | PullsGet pulls_get_args
  | Fetch http_request
  | Sleep nat
  | CreateReview create_review_args "js_error option"
  | CreateComment create_comment_args "js_error option"

section \<open>Conversion to string\<close>

text \<open>How a number is printed: an integer up to \<open>2^53\<close> by its decimal digits.\<close>

definition number_string :: "world \<Rightarrow> int \<Rightarrow> jsstring" where
  "number_string w n = (if \<bar>n\<bar> \<le> 2 ^ 53 then show_int n else Number_toString w n)"

text \<open>
  \<open>String(v)\<close>, as a template literal and \<open>JSON.parse\<close> apply it to their argument. It can
  throw. A parsed object has no callable property of its own, so it is printed by the
  inherited \<open>toString\<close> as \<open>[object Object]\<close> unless it has an own property named
  \<open>toString\<close>: then neither that value nor the inherited \<open>valueOf\<close> gives a primitive and
  the conversion throws a \<open>TypeError\<close>. An array is joined with commas, its elements
  converted in order, \<open>null\<close> and \<open>undefined\<close> elements giving the empty string.
\<close>

fun to_string :: "world \<Rightarrow> jsval \<Rightarrow> js_error + jsstring"
  and elements_to_strings :: "world \<Rightarrow> jsval list \<Rightarrow> js_error + jsstring list" where
  "to_string w JUndefined = Inr (lit ''undefined'')"
| "to_string w JNull = Inr (lit ''null'')"
| "to_string w (JBool b) = Inr (if b then lit ''true'' else lit ''false'')"
| "to_string w (JNum n) = Inr (number_string w n)"
| "to_string w (JStr s) = Inr s"
| "to_string w (JArr xs) =
     (case elements_to_strings w xs of
        Inl e \<Rightarrow> Inl e
      | Inr ss \<Rightarrow> Inr (join (lit '','') ss))"
| "to_string w (JObj ps) =
     (case map_of ps (lit ''toString'') of
        Some v \<Rightarrow> Inl (TypeError (lit ''Cannot convert object to primitive value''))
      | None \<Rightarrow> Inr (lit ''[object Object]''))"
| "elements_to_strings w [] = Inr []"
| "elements_to_strings w (v # vs) =
     (case (if v = JUndefined \<or> v = JNull then Inr [] else to_string w v) of
        Inl e \<Rightarrow> Inl e
      | Inr s \<Rightarrow>
          (case elements_to_strings w vs of
             Inl e \<Rightarrow> Inl e
           | Inr ss \<Rightarrow> Inr (s # ss)))"

text \<open>The string of a conversion that did not throw.\<close>

definition text_of :: "js_error + jsstring \<Rightarrow> jsstring" where
  "text_of r = (case r of Inl e \<Rightarrow> [] | Inr s \<Rightarrow> s)"

section \<open>The diff fetcher\<close>

definition fetchCodeDiff ::
  "world \<Rightarrow> jsstring \<Rightarrow> jsstring \<Rightarrow> int \<Rightarrow> event list \<times> (js_error + jsstring option)" where
  "fetchCodeDiff w owner repo pull_number =
     (let args = \<lparr>pg_owner = owner, pg_repo = repo, pg_pull_number = pull_number,
                  pg_headers = [(lit ''Accept'', lit ''application/vnd.github.v3.diff'')]\<rparr>;
          ev = [Info (lit ''Fetching diffs from GitHub...''), PullsGet args]
      in case pulls_get w args of
           Inl e \<Rightarrow> (ev, Inl e)
         | Inr codeDiff \<Rightarrow>
             (case codeDiff of
                None \<Rightarrow>
                  (ev @ [Info (lit ''No significant diff found. Skipping validation.'')], Inr None)
              | Some d \<Rightarrow>
                  if d = [] \<or> length d < 10
                  then (ev @ [Info (lit ''No significant diff found. Skipping validation.'')],
                        Inr None)
                  else (ev @ [Info (lit ''Code diff successfully fetched. Size: '' @
                                    show_nat (length d) @ lit '' Bytes.'')],
                        Inr (Some d))))"

section \<open>The review requester\<close>

definition GEMINI_SYSTEM_PROMPT :: jsstring where
  "GEMINI_SYSTEM_PROMPT =
      lit ''\<newline>'' @
      lit ''    You are an experienced Software Architect conducting a code review.\<newline>'' @
      lit ''    Your task is to analyze the provided code diff.\<newline>'' @
      lit ''    Return your feedback ONLY in the following JSON format, commenting on bugs, security vulnerabilities, and improvements directly on the affected line.\<newline>'' @
      lit ''    \<newline>'' @
      lit ''    ***CRITICAL INSTRUCTION FOR LINE NUMBER***\<newline>'' @
      lit ''    The 'line' MUST be the line number in the TARGET FILE (after the change).\<newline>'' @
      lit ''    The line MUST be based on a line that starts with a PLUS sign (+) in the diff.\<newline>'' @
      lit ''    Ignore lines that were deleted (-) or context lines ( ).\<newline>'' @
      lit ''    You MUST derive the line number from the Hunk Header Information (e.g., '@@ -X,Y +A,B @@') by using the starting line (A) and the number of added lines (B).\<newline>'' @
      lit ''    \<newline>'' @
      lit ''    If there are no comments, reply with an empty JSON list: [].\<newline>'' @
      lit ''    \<newline>'' @
      lit ''    JSON Schema:\<newline>'' @
      lit ''    [\<newline>'' @
      lit ''      {\<newline>'' @
      lit ''        \"path\": \"string\", // The file path, e.g., \"src/server.js\"\<newline>'' @
      lit ''        \"line\": \"number\", // The line number in the NEW file (MUST be a line starting with '+ ').\<newline>'' @
      lit ''        \"comment\": \"string\" // The detailed comment, in German.\<newline>'' @
      lit ''      }\<newline>'' @
      lit ''    ]\<newline>''"

definition responseSchema :: jsval where
  "responseSchema =
     JObj [(lit ''type'', JStr (lit ''ARRAY'')),
           (lit ''items'',
            JObj [(lit ''type'', JStr (lit ''OBJECT'')),
                  (lit ''properties'',
                   JObj [(lit ''path'', JObj [(lit ''type'', JStr (lit ''STRING''))]),
                         (lit ''line'', JObj [(lit ''type'', JStr (lit ''NUMBER''))]),
                         (lit ''comment'', JObj [(lit ''type'', JStr (lit ''STRING''))])]),
                  (lit ''required'',
                   JArr [JStr (lit ''path''), JStr (lit ''line''), JStr (lit ''comment'')])])]"

definition apiUrl :: "jsstring \<Rightarrow> jsstring" where
  "apiUrl model =
     lit ''https://generativelanguage.googleapis.com/v1beta/models/'' @ model @
     lit '':generateContent''"

definition userQuery :: "jsstring \<Rightarrow> jsstring" where
  "userQuery codeDiff =
     lit ''Please analyze the following code-diff and write the comments as JSON:\<newline>\<newline>'' @
     codeDiff"

definition payload :: "jsstring \<Rightarrow> jsval" where
  "payload codeDiff =
     JObj [(lit ''contents'',
            JArr [JObj [(lit ''parts'', JArr [JObj [(lit ''text'', JStr (userQuery codeDiff))]])]]),
           (lit ''systemInstruction'',
            JObj [(lit ''parts'', JArr [JObj [(lit ''text'', JStr GEMINI_SYSTEM_PROMPT)]])]),
           (lit ''generationConfig'',
            JObj [(lit ''responseMimeType'', JStr (lit ''application/json'')),
                  (lit ''responseSchema'', responseSchema)])]"

text \<open>The arguments of the \<open>fetch\<close> call of every attempt.\<close>

definition gemini_request :: "world \<Rightarrow> jsstring \<Rightarrow> jsstring \<Rightarrow> jsstring \<Rightarrow> http_request" where
  "gemini_request w apiKey model codeDiff =
     \<lparr>url = apiUrl model,
      http_method = lit ''POST'',
      headers = [(lit ''Content-Type'', lit ''application/json''),
                 (lit ''X-Goog-Api-Key'', apiKey)],
      body = JSON_stringify w (payload codeDiff)\<rparr>"

text \<open>\<open>candidate.content?.parts?.[0]?.text\<close>, for a \<open>candidate\<close> that is truthy.\<close>

definition candidate_text :: "jsval \<Rightarrow> jsval" where
  "candidate_text candidate =
     opt_prop (opt_index0 (opt_prop (read_prop candidate (lit ''content'')) (lit ''parts'')))
       (lit ''text'')"

text \<open>
  The body of the \<open>try\<close> block of attempt \<open>i\<close>, entered with the current \<open>rawJsonText\<close>:
  the events, the new \<open>rawJsonText\<close>, and the value returned or the value thrown. When the
  text is truthy, re-reading \<open>candidate.content.parts[0].text\<close> without \<open>?.\<close> gives the same
  value and cannot throw. \<open>JSON.parse\<close> converts its argument to a string first, and the info
  line converts \<open>comments.length\<close>: either conversion can throw, after \<open>rawJsonText\<close> is set.
\<close>

definition try_body ::
  "world \<Rightarrow> http_request \<Rightarrow> nat \<Rightarrow> jsval \<Rightarrow> event list \<times> jsval \<times> (js_error + jsval)" where
  "try_body w req i rawJsonText =
     (case http_fetch w i req of
        Inl e \<Rightarrow> ([Fetch req], rawJsonText, Inl e)
      | Inr response \<Rightarrow>
          if \<not> ok response
          then ([Fetch req], rawJsonText,
                Inl (Error (lit ''API error: '' @ statusText response)))
          else
            (case json response of
               Inl e \<Rightarrow> ([Fetch req], rawJsonText, Inl e)
             | Inr result \<Rightarrow>
                 (case get_prop result (lit ''candidates'') of
                    Inl e \<Rightarrow> ([Fetch req], rawJsonText, Inl e)
                  | Inr candidates \<Rightarrow>
                      let candidate = opt_index0 candidates in
                      if truthy candidate \<and> truthy (candidate_text candidate)
                      then
                        let rawJsonText' = candidate_text candidate in
                        (case to_string w rawJsonText' of
                           Inl e \<Rightarrow> ([Fetch req], rawJsonText', Inl e)
                         | Inr s \<Rightarrow>
                             (case JSON_parse w s of
                                Inl e \<Rightarrow> ([Fetch req], rawJsonText', Inl e)
                              | Inr comments \<Rightarrow>
                                  (case get_prop comments (lit ''length'') of
                                     Inl e \<Rightarrow> ([Fetch req], rawJsonText', Inl e)
                                   | Inr n \<Rightarrow>
                                       (case to_string w n of
                                          Inl e \<Rightarrow> ([Fetch req], rawJsonText', Inl e)
                                        | Inr ns \<Rightarrow>
                                            ([Fetch req,
                                              Info (lit ''Gemini has generated '' @ ns @
                                                    lit '' comments.'')],
                                             rawJsonText', Inr comments)))))
                      else ([Fetch req], rawJsonText,
                            Inl (Error (lit ''No text found in Gemini response''))))))"

text \<open>
  The \<open>for\<close> loop from index \<open>i\<close> on. The message of the final throw converts
  \<open>rawJsonText\<close> to a string; when that conversion throws, its \<open>TypeError\<close> is what leaves the
  function. Falling out of the loop would return \<open>undefined\<close>.
\<close>

function retry_loop ::
  "world \<Rightarrow> http_request \<Rightarrow> nat \<Rightarrow> jsval \<Rightarrow> event list \<times> (js_error + jsval)" where
  "retry_loop w req i rawJsonText =
     (if i < 3 then
        (case try_body w req i rawJsonText of
           (ev, rawJsonText', Inr comments) \<Rightarrow> (ev, Inr comments)
         | (ev, rawJsonText', Inl error) \<Rightarrow>
             let ev' = ev @ [Warning (lit ''Try '' @ show_nat (i + 1) @
                                      lit '' failed (Gemini/JSON-Parsing): '' @ message error)]
             in if i = 2
                then (case to_string w rawJsonText' of
                        Inl e \<Rightarrow> (ev', Inl e)
                      | Inr s \<Rightarrow>
                          (ev', Inl (Error
                             (lit ''Gemini API request has failed after multiple tries. Last raw response: '' @
                              s))))
                else (case retry_loop w req (i + 1) rawJsonText' of
                        (ev'', r) \<Rightarrow> (ev' @ [Sleep (2000 * (i + 1))] @ ev'', r)))
      else ([], Inr JUndefined))"
  by pat_completeness auto
termination
  by (relation "measure (\<lambda>(w, req, i, rawJsonText). 3 - i)") auto

declare retry_loop.simps [simp del]

text \<open>
  The text payload that attempt \<open>i\<close> extracts from its response, if the attempt gets that
  far: the steps of the \<open>try\<close> block up to the assignment of \<open>rawJsonText\<close>.
\<close>

definition extracted_text :: "world \<Rightarrow> http_request \<Rightarrow> nat \<Rightarrow> jsval option" where
  "extracted_text w req i =
     (case http_fetch w i req of
        Inl e \<Rightarrow> None
      | Inr response \<Rightarrow>
          if \<not> ok response then None
          else
            (case json response of
               Inl e \<Rightarrow> None
             | Inr result \<Rightarrow>
                 (case get_prop result (lit ''candidates'') of
                    Inl e \<Rightarrow> None
                  | Inr candidates \<Rightarrow>
                      if truthy (opt_index0 candidates) \<and>
                         truthy (candidate_text (opt_index0 candidates))
                      then Some (candidate_text (opt_index0 candidates))
                      else None)))"

text \<open>
  The outcome of attempt \<open>i\<close>: the findings it returns or the value it throws. The outcome
  does not depend on the \<open>rawJsonText\<close> the attempt is entered with (lemma
  \<open>try_body_outcome\<close>).
\<close>

definition attempt :: "world \<Rightarrow> http_request \<Rightarrow> nat \<Rightarrow> js_error + jsval" where
  "attempt w req i = snd (snd (try_body w req i (JStr [])))"

definition getGeminiReview ::
  "world \<Rightarrow> jsstring \<Rightarrow> jsstring \<Rightarrow> jsstring \<Rightarrow> event list \<times> (js_error + jsval)" where
  "getGeminiReview w apiKey model codeDiff =
     (case retry_loop w (gemini_request w apiKey model codeDiff) 0 (JStr []) of
        (ev, r) \<Rightarrow>
          (Info (lit ''Sending structured JSON request to Gemini. Model: '' @ model @ lit ''.'')
           # ev, r))"

section \<open>The comment poster\<close>

text \<open>The callback of \<open>aiReviewComments.map\<close>; \<open>c.path\<close> throws on a nullish element.\<close>

definition github_comment_of :: "jsval \<Rightarrow> js_error + github_comment" where
  "github_comment_of c =
     (case get_prop c (lit ''path'') of
        Inl e \<Rightarrow> Inl e
      | Inr p \<Rightarrow>
          (case get_prop c (lit ''line'') of
             Inl e \<Rightarrow> Inl e
           | Inr l \<Rightarrow>
               (case get_prop c (lit ''comment'') of
                  Inl e \<Rightarrow> Inl e
                | Inr b \<Rightarrow> Inr \<lparr>gc_path = p, gc_line = l, gc_body = b\<rparr>)))"

fun map_callback :: "('a \<Rightarrow> js_error + 'b) \<Rightarrow> 'a list \<Rightarrow> js_error + 'b list" where
  "map_callback f [] = Inr []"
| "map_callback f (x # xs) =
     (case f x of
        Inl e \<Rightarrow> Inl e
      | Inr y \<Rightarrow> (case map_callback f xs of Inl e \<Rightarrow> Inl e | Inr ys \<Rightarrow> Inr (y # ys)))"

text \<open>
  \<open>v.map(f)\<close>: only an array has a \<open>map\<close> method; on any other value the call throws a
  \<open>TypeError\<close>.
\<close>

definition array_map :: "jsval \<Rightarrow> (jsval \<Rightarrow> js_error + 'b) \<Rightarrow> js_error + 'b list" where
  "array_map v f =
     (case v of
        JArr xs \<Rightarrow> map_callback f xs
      | _ \<Rightarrow>
          if nullish v
          then Inl (TypeError (lit ''Cannot read properties of '' @
                               (if v = JNull then lit ''null'' else lit ''undefined'') @
                               lit '' (reading 'map')''))
          else Inl (TypeError (lit ''aiReviewComments.map is not a function'')))"

definition review_heading :: jsstring where
  "review_heading = lit ''## '' @ [0xF0, 0x178, 0xA4, 0x2013] @ lit '' AI Code Review by Gemini''"

definition no_issues_body :: jsstring where
  "no_issues_body =
     review_heading @ lit ''\<newline>\<newline>No critical issues found. **Looks good!**''"

definition reviewSummary :: "nat \<Rightarrow> jsstring" where
  "reviewSummary n =
      lit ''\<newline>'' @
      lit ''    '' @ review_heading @ lit ''\<newline>'' @
      lit ''    \<newline>'' @
      lit ''    I've left '' @ show_nat n @ lit '' specific comments on the changes. Please check the marked lines in the \"Files changed\" tab.\<newline>'' @
      lit ''    \<newline>'' @
      lit ''    ---\<newline>'' @
      lit ''    \<newline>'' @
      lit ''    *Please note: I am an AI, and my suggestions are recommendations only. A human review remains essential!*\<newline>'' @
      lit ''  ''"

text \<open>
  One line of the fallback comment. The template converts \<open>c.path\<close>, \<open>c.line\<close> and
  \<open>c.body\<close> to strings, in this order; the first conversion that throws ends it.
\<close>

definition feedback_entry :: "world \<Rightarrow> github_comment \<Rightarrow> js_error + jsstring" where
  "feedback_entry w c =
     (case to_string w (gc_path c) of
        Inl e \<Rightarrow> Inl e
      | Inr p \<Rightarrow>
          (case to_string w (gc_line c) of
             Inl e \<Rightarrow> Inl e
           | Inr l \<Rightarrow>
               (case to_string w (gc_body c) of
                  Inl e \<Rightarrow> Inl e
                | Inr b \<Rightarrow> Inr (lit ''- **'' @ p @ lit '' (Line '' @ l @ lit ''):** '' @ b))))"

text \<open>The fallback body; it throws what the first failing line throws.\<close>

definition fallbackBody :: "world \<Rightarrow> github_comment list \<Rightarrow> js_error + jsstring" where
  "fallbackBody w githubComments =
     (case map_callback (feedback_entry w) githubComments of
        Inl e \<Rightarrow> Inl e
      | Inr entries \<Rightarrow>
          Inr (
      lit ''\<newline>'' @
      lit ''        ## '' @ [0xE2, 0x161, 0xA0, 0xEF, 0xB8] @ lit '' AI Review Error (Fallback)\<newline>'' @
      lit ''        \<newline>'' @
      lit ''        **The attempt to set line-specific comments failed due to invalid line numbers (422 error).**\<newline>'' @
      lit ''        \<newline>'' @
      lit ''        Here is the generated feedback as a general comment:\<newline>'' @
      lit ''        \<newline>'' @
      lit ''        ---\<newline>'' @
      lit ''        \<newline>'' @
      lit ''        **Summary:** '' @
      replace_first review_heading [] (reviewSummary (length githubComments)) @
      lit '' \<newline>        \<newline>        **Feedback Details:**\<newline>        '' @
      join (lit ''\<newline>'') entries @
      lit ''\<newline>      ''))"

definition postReviewComments ::
  "world \<Rightarrow> jsstring \<Rightarrow> jsstring \<Rightarrow> int \<Rightarrow> int \<Rightarrow> jsval \<Rightarrow> event list \<times> (js_error + unit)" where
  "postReviewComments w owner repo pull_number issue_number aiReviewComments =
     (case array_map aiReviewComments github_comment_of of
        Inl e \<Rightarrow> ([], Inl e)
      | Inr githubComments \<Rightarrow>
          if length githubComments = 0 then
            let args = \<lparr>cc_owner = owner, cc_repo = repo, cc_issue_number = issue_number,
                        cc_body = no_issues_body\<rparr>
            in (case createComment w args of
                  Some e \<Rightarrow> ([CreateComment args (Some e)], Inl e)
                | None \<Rightarrow>
                    ([CreateComment args None,
                      Info (lit ''No comments generated; posted a positive summary comment.'')],
                     Inr ()))
          else
            let rargs = \<lparr>cr_owner = owner, cr_repo = repo, cr_pull_number = pull_number,
                         cr_event = lit ''COMMENT'',
                         cr_body = reviewSummary (length githubComments),
                         cr_comments = githubComments\<rparr>
            in (case createReview w rargs of
                  None \<Rightarrow>
                    ([CreateReview rargs None,
                      Info (lit ''Review with line-specific comments successfully posted.'')],
                     Inr ())
                | Some error \<Rightarrow>
                    if status error = JNum 422 then
                      let ev = [CreateReview rargs (Some error),
                                Warning (lit ''ERROR: The GitHub API rejected the review (422 Unprocessable Entity). This indicates the AI generated invalid line numbers.'')]
                      in (case fallbackBody w githubComments of
                            Inl e \<Rightarrow> (ev, Inl e)
                          | Inr fb \<Rightarrow>
                              (case createComment w
                                      \<lparr>cc_owner = owner, cc_repo = repo,
                                       cc_issue_number = issue_number, cc_body = fb\<rparr> of
                                 Some e \<Rightarrow>
                                   (ev @ [CreateComment
                                            \<lparr>cc_owner = owner, cc_repo = repo,
                                             cc_issue_number = issue_number, cc_body = fb\<rparr>
                                            (Some e)],
                                    Inl e)
                               | None \<Rightarrow>
                                   (ev @ [CreateComment
                                            \<lparr>cc_owner = owner, cc_repo = repo,
                                             cc_issue_number = issue_number, cc_body = fb\<rparr>
                                            None,
                                          Warning (lit ''Posted as a general comment. Action continues.'')],
                                    Inr ())))
                    else ([CreateReview rargs (Some error)], Inl error)))"

section \<open>The entry point\<close>

text \<open>
  What \<open>initializeAction\<close> returns. The client object is not a field here: the world's
  \<open>pulls_get\<close>, \<open>createReview\<close> and \<open>createComment\<close> are its methods.
\<close>

record init =
  init_apiKey :: jsstring
  init_githubToken :: jsstring
  init_model :: jsstring
  init_owner :: jsstring
  init_repo :: jsstring
  init_issueNumber :: int

definition initializeAction :: "world \<Rightarrow> event list \<times> (js_error + init option)" where
  "initializeAction w =
     (let k = getInput w (lit ''gemini-api-key'');
          t = getInput w (lit ''github-token'');
          m = getInput w (lit ''model'')
      in if eventName w \<noteq> lit ''pull_request''
         then ([SetFailed (lit ''This action is only available for pull requests!'')], Inr None)
         else (case getOctokit w t of
                 Some e \<Rightarrow> ([], Inl e)
               | None \<Rightarrow>
                   ([], Inr (Some \<lparr>init_apiKey = k, init_githubToken = t, init_model = m,
                                   init_owner = context_owner w,
                                   init_repo = context_repo w,
                                   init_issueNumber = context_issue_number w\<rparr>))))"

text \<open>\<open>run\<close> returns nothing; what it did is its list of events.\<close>

definition run :: "world \<Rightarrow> event list" where
  "run w =
     (case initializeAction w of
        (ev0, Inl error) \<Rightarrow> ev0 @ [SetFailed (message error)]
      | (ev0, Inr None) \<Rightarrow> ev0
      | (ev0, Inr (Some i)) \<Rightarrow>
          (case fetchCodeDiff w (init_owner i) (init_repo i) (init_issueNumber i) of
             (ev1, Inl error) \<Rightarrow> ev0 @ ev1 @ [SetFailed (message error)]
           | (ev1, Inr None) \<Rightarrow> ev0 @ ev1
           | (ev1, Inr (Some codeDiff)) \<Rightarrow>
               if codeDiff = [] then ev0 @ ev1
               else
                 (case getGeminiReview w (init_apiKey i) (init_model i) codeDiff of
                    (ev2, Inl error) \<Rightarrow> ev0 @ ev1 @ ev2 @ [SetFailed (message error)]
                  | (ev2, Inr aiReviewComments) \<Rightarrow>
                      (case postReviewComments w (init_owner i) (init_repo i) (init_issueNumber i)
                              (init_issueNumber i) aiReviewComments of
                         (ev3, Inl error) \<Rightarrow>
                           ev0 @ ev1 @ ev2 @ ev3 @ [SetFailed (message error)]
                       | (ev3, Inr u) \<Rightarrow> ev0 @ ev1 @ ev2 @ ev3))))"

section \<open>Reading a list of events\<close>

fun is_fetch :: "event \<Rightarrow> bool" where
  "is_fetch (Fetch req) = True"
| "is_fetch e = False"

fun is_post :: "event \<Rightarrow> bool" where
  "is_post (CreateReview a r) = True"
| "is_post (CreateComment a r) = True"
| "is_post e = False"

fun is_review :: "event \<Rightarrow> bool" where
  "is_review (CreateReview a r) = True"
| "is_review e = False"


text \<open>A posting call that the collaborator accepted.\<close>

fun is_successful_post :: "event \<Rightarrow> bool" where
  "is_successful_post (CreateReview a r) = (r = None)"
| "is_successful_post (CreateComment a r) = (r = None)"
| "is_successful_post e = False"

fun sleeps :: "event list \<Rightarrow> nat list" where
  "sleeps [] = []"
| "sleeps (Sleep ms # es) = ms # sleeps es"
| "sleeps (e # es) = sleeps es"

text \<open>The messages of the retry loop, as the source composes them.\<close>

abbreviation sending_info :: "jsstring \<Rightarrow> event" where
  "sending_info m \<equiv>
     Info (lit ''Sending structured JSON request to Gemini. Model: '' @ m @ lit ''.'')"

abbreviation generated_info :: "world \<Rightarrow> jsval \<Rightarrow> event" where
  "generated_info w c \<equiv>
     Info (lit ''Gemini has generated '' @ text_of (to_string w (read_prop c (lit ''length''))) @
           lit '' comments.'')"

abbreviation try_warning :: "nat \<Rightarrow> js_error \<Rightarrow> event" where
  "try_warning n e \<equiv>
     Warning (lit ''Try '' @ show_nat n @ lit '' failed (Gemini/JSON-Parsing): '' @ message e)"

abbreviation exhausted_message :: "jsstring \<Rightarrow> jsstring" where
  "exhausted_message s \<equiv>
     lit ''Gemini API request has failed after multiple tries. Last raw response: '' @ s"

text \<open>
  What the \<open>throw\<close> of the third failure raises when \<open>rawJsonText\<close> is \<open>raw\<close>: the error
  with the message above, or the \<open>TypeError\<close> of converting \<open>raw\<close>.
\<close>

definition exhaustion_error :: "world \<Rightarrow> jsval \<Rightarrow> js_error" where
  "exhaustion_error w raw =
     (case to_string w raw of Inl e \<Rightarrow> e | Inr s \<Rightarrow> Error (exhausted_message s))"

text \<open>\<open>rawJsonText\<close> after attempt \<open>i\<close>, entered with \<open>raw\<close>.\<close>

abbreviation raw_after :: "world \<Rightarrow> http_request \<Rightarrow> nat \<Rightarrow> jsval \<Rightarrow> jsval" where
  "raw_after w req i raw \<equiv> (case extracted_text w req i of Some t \<Rightarrow> t | None \<Rightarrow> raw)"

section \<open>Well-formed findings and runs\<close>

text \<open>
  A finding as the source's JSDoc types it, \<open>{path: string, line: number, comment: string}\<close>,
  the JavaScript object it is after parsing, and the inline comment made of it.
\<close>

record finding =
  path :: jsstring
  line :: int
  comment :: jsstring

definition finding_value :: "finding \<Rightarrow> jsval" where
  "finding_value f =
     JObj [(lit ''path'', JStr (path f)), (lit ''line'', JNum (line f)),
           (lit ''comment'', JStr (comment f))]"

definition inline_comment :: "finding \<Rightarrow> github_comment" where
  "inline_comment f = \<lparr>gc_path = JStr (path f), gc_line = JNum (line f), gc_body = JStr (comment f)\<rparr>"

text \<open>The arguments of \<open>createReview\<close> for a list of findings.\<close>

definition review_of ::
  "jsstring \<Rightarrow> jsstring \<Rightarrow> int \<Rightarrow> finding list \<Rightarrow> create_review_args" where
  "review_of owner repo pull_number fs =
     \<lparr>cr_owner = owner, cr_repo = repo, cr_pull_number = pull_number,
      cr_event = lit ''COMMENT'', cr_body = reviewSummary (length fs),
      cr_comments = map inline_comment fs\<rparr>"

text \<open>
  The line of the fallback comment that lists a finding, and the arguments of the fallback
  \<open>createComment\<close> for a list of findings (whose lines never throw).
\<close>

definition finding_line :: "world \<Rightarrow> finding \<Rightarrow> jsstring" where
  "finding_line w f =
     lit ''- **'' @ path f @ lit '' (Line '' @ number_string w (line f) @ lit ''):** '' @
     comment f"

definition fallback_of ::
  "world \<Rightarrow> jsstring \<Rightarrow> jsstring \<Rightarrow> int \<Rightarrow> finding list \<Rightarrow> create_comment_args" where
  "fallback_of w owner repo issue_number fs =
     \<lparr>cc_owner = owner, cc_repo = repo, cc_issue_number = issue_number,
      cc_body = text_of (fallbackBody w (map inline_comment fs))\<rparr>"

text \<open>The arguments of the \<open>pulls.get\<close> call that \<open>fetchCodeDiff\<close> makes, and those of a run.\<close>

definition pulls_get_request :: "jsstring \<Rightarrow> jsstring \<Rightarrow> int \<Rightarrow> pulls_get_args" where
  "pulls_get_request owner repo pull_number =
     \<lparr>pg_owner = owner, pg_repo = repo, pg_pull_number = pull_number,
      pg_headers = [(lit ''Accept'', lit ''application/vnd.github.v3.diff'')]\<rparr>"

definition diff_request :: "world \<Rightarrow> pulls_get_args" where
  "diff_request w =
     pulls_get_request (context_owner w) (context_repo w) (context_issue_number w)"

text \<open>A fetched diff that is absent, empty or shorter than the threshold.\<close>

definition insignificant :: "jsstring option \<Rightarrow> bool" where
  "insignificant codeDiff = (case codeDiff of None \<Rightarrow> True | Some d \<Rightarrow> length d < 10)"

text \<open>
  The run gets as far as the review requester, with diff \<open>d\<close>: the event is a pull request,
  the client is built, and the diff is fetched and is significant.
\<close>

definition reaches_review :: "world \<Rightarrow> jsstring \<Rightarrow> bool" where
  "reaches_review w d =
     (eventName w = lit ''pull_request'' \<and>
      getOctokit w (getInput w (lit ''github-token'')) = None \<and>
      pulls_get w (diff_request w) = Inr (Some d) \<and>
      10 \<le> length d)"

text \<open>The model request of a run whose diff is \<open>d\<close>.\<close>

definition run_request :: "world \<Rightarrow> jsstring \<Rightarrow> http_request" where
  "run_request w d =
     gemini_request w (getInput w (lit ''gemini-api-key'')) (getInput w (lit ''model'')) d"

text \<open>
  The text payload of the latest of the three attempts that extracted one, the empty string
  when none did.
\<close>

definition last_raw :: "world \<Rightarrow> http_request \<Rightarrow> jsval" where
  "last_raw w req =
     (case extracted_text w req 2 of
        Some t \<Rightarrow> t
      | None \<Rightarrow>
          (case extracted_text w req 1 of
             Some t \<Rightarrow> t
           | None \<Rightarrow> (case extracted_text w req 0 of Some t \<Rightarrow> t | None \<Rightarrow> JStr [])))"

section \<open>Example collaborators\<close>

text \<open>
  A successful model response whose text payload is \<open>v\<close>, in the endpoint's wire shape, and
  the usual case of a string.
\<close>

definition payload_response :: "jsval \<Rightarrow> http_response" where
  "payload_response v =
     \<lparr>ok = True, statusText = lit ''OK'',
      json = Inr (JObj [(lit ''candidates'',
                JArr [JObj [(lit ''content'',
                  JObj [(lit ''parts'', JArr [JObj [(lit ''text'', v)]])])]])])\<rparr>"

definition text_response :: "jsstring \<Rightarrow> http_response" where
  "text_response t = payload_response (JStr t)"

definition unavailable :: http_response where
  "unavailable = \<lparr>ok = False, statusText = lit ''Service Unavailable'', json = Inr JNull\<rparr>"

text \<open>What \<open>JSON.parse\<close> answers on the few texts the examples use.\<close>

definition example_parse :: "jsstring \<Rightarrow> js_error + jsval" where
  "example_parse s =
     (if s = lit ''[]'' then Inr (JArr [])
      else if s = lit ''null'' then Inr JNull
      else if s = lit ''{}'' then Inr (JObj [])
      else if s = lit ''[{\"path\":\"a.py\",\"line\":42,\"comment\":\"x\"}]''
        then Inr (JArr [JObj [(lit ''path'', JStr (lit ''a.py'')), (lit ''line'', JNum 42),
                              (lit ''comment'', JStr (lit ''x''))]])
      else Inl \<lparr>message = lit ''Unexpected token'', status = JUndefined\<rparr>)"

definition example_diff :: jsstring where
  "example_diff =
     lit ''diff --git a/a.py b/a.py\<newline>@@ -41,0 +42,1 @@\<newline>+x = 1\<newline>''"

definition example_finding :: finding where
  "example_finding = \<lparr>path = lit ''a.py'', line = 42, comment = lit ''x''\<rparr>"

definition unprocessable :: js_error where
  "unprocessable = \<lparr>message = lit ''Unprocessable Entity'', status = JNum 422\<rparr>"


text \<open>
  A pull-request run on diff \<open>d\<close> whose model endpoint answers call \<open>i\<close> with
  \<open>responses i\<close>, and whose posting calls answer as given.
\<close>

definition example_world ::
  "jsstring \<Rightarrow> (nat \<Rightarrow> js_error + http_response) \<Rightarrow> js_error option \<Rightarrow> js_error option \<Rightarrow>
   world" where
  "example_world d responses review_answer comment_answer =
     \<lparr>getInput = (\<lambda>name. if name = lit ''gemini-api-key'' then lit ''KEY''
                          else if name = lit ''github-token'' then lit ''TOKEN''
                          else lit ''gemini-2.5-flash''),
      eventName = lit ''pull_request'',
      context_owner = lit ''octo'',
      context_repo = lit ''demo'',
      context_issue_number = 7,
      getOctokit = (\<lambda>t. None),
      pulls_get = (\<lambda>a. Inr (Some d)),
      http_fetch = (\<lambda>i req. responses i),
      JSON_parse = example_parse,
      JSON_stringify = (\<lambda>v. lit ''{}''),
      Number_toString = (\<lambda>n. lit ''1e+21''),
      createReview = (\<lambda>a. review_answer),
      createComment = (\<lambda>a. comment_answer)\<rparr>"

text \<open>Two failures, then an empty findings list.\<close>

definition third_time_lucky :: "nat \<Rightarrow> js_error + http_response" where
  "third_time_lucky i = (if i = 2 then Inr (text_response (lit ''[]'')) else Inr unavailable)"

text \<open>A text that does not parse on the first call, then two failures before any text.\<close>

definition garbled_then_down :: "nat \<Rightarrow> js_error + http_response" where
  "garbled_then_down i = (if i = 0 then Inr (text_response (lit ''not json'')) else Inr unavailable)"

text \<open>The same answer to every call.\<close>

definition always :: "http_response \<Rightarrow> nat \<Rightarrow> js_error + http_response" where
  "always r i = Inr r"

text \<open>A model that answers every call with the text \<open>null\<close>.\<close>

definition null_text_world :: world where
  "null_text_world = example_world example_diff (always (text_response (lit ''null''))) None None"

definition null_text_request :: http_request where
  "null_text_request = run_request null_text_world example_diff"

text \<open>
  A text payload that is not a string but an object with a property named \<open>toString\<close>, which
  has no conversion to a string; a model that answers every call with it, and one that
  answers the first call with it and then fails.
\<close>

definition unprintable :: jsval where
  "unprintable = JObj [(lit ''toString'', JNum 1)]"

definition unprintable_world :: world where
  "unprintable_world =
     example_world example_diff (always (payload_response unprintable)) None None"

definition unprintable_request :: http_request where
  "unprintable_request = run_request unprintable_world example_diff"

definition unprintable_then_down :: "nat \<Rightarrow> js_error + http_response" where
  "unprintable_then_down i = (if i = 0 then Inr (payload_response unprintable) else Inr unavailable)"

definition unprintable_first_world :: world where
  "unprintable_first_world = example_world example_diff unprintable_then_down None None"

definition unprintable_first_request :: http_request where
  "unprintable_first_request = run_request unprintable_first_world example_diff"



text \<open>A run whose review is rejected as unprocessable, and its fallback comment.\<close>

definition rejected_review_world :: world where
  "rejected_review_world = example_world example_diff third_time_lucky (Some unprocessable) None"


section \<open>Facts about literals\<close>

lemma of_char_word_inj: "(of_char a :: 16 word) = of_char b \<longleftrightarrow> a = b"
proof
  assume h: "(of_char a :: 16 word) = of_char b"
  have bound: "(of_char c :: nat) < 2 ^ 16" for c
  proof -
    have "(of_char c :: nat) mod 256 < 256" by simp
    then have a: "(of_char c :: nat) < 256" by (simp only: of_char_mod_256)
    have b: "(256 :: nat) < 2 ^ 16" by simp
    show ?thesis by (rule less_trans [OF a b])
  qed
  have "(of_nat (of_char a) :: 16 word) = of_nat (of_char b)"
    using h by (simp only: of_nat_of_char)
  then have "(of_char a :: nat) = of_char b"
    using bound [of a] bound [of b] by (simp add: word_of_nat_eq_iff take_bit_nat_eq_self)
  then show "a = b" by simp
qed simp

lemma lit_eq_iff [simp]: "lit a = lit b \<longleftrightarrow> a = b"
  unfolding lit_def by (rule inj_map_eq_map) (simp add: inj_def of_char_word_inj)

lemma lit_append: "lit (a @ b) = lit a @ lit b"
  by (simp add: lit_def)

lemma lit_eq_Nil [simp]: "lit a = [] \<longleftrightarrow> a = []"
  by (simp add: lit_def)

section \<open>Facts about one attempt\<close>

lemma try_body_outcome: "snd (snd (try_body w req i raw)) = attempt w req i"
  by (simp add: try_body_def attempt_def Let_def split: sum.splits)

lemma try_body_raw:
  "fst (snd (try_body w req i raw)) = raw_after w req i raw"
  by (simp add: try_body_def extracted_text_def Let_def split: sum.splits)

lemma try_body_events:
  "fst (try_body w req i raw) =
     Fetch req # (case attempt w req i of Inl e \<Rightarrow> [] | Inr c \<Rightarrow> [generated_info w c])"
  by (simp add: try_body_def attempt_def Let_def get_prop_def text_of_def split: sum.splits)

lemma try_body_eq:
  "try_body w req i raw =
     (Fetch req # (case attempt w req i of Inl e \<Rightarrow> [] | Inr c \<Rightarrow> [generated_info w c]),
      raw_after w req i raw, attempt w req i)"
  using try_body_outcome [of w req i raw] try_body_raw [of w req i raw]
    try_body_events [of w req i raw]
  by (cases "try_body w req i raw") simp

lemma extracted_textD:
  assumes "extracted_text w req i = Some t"
  shows "\<exists>response result candidates.
           http_fetch w i req = Inr response \<and> ok response \<and> json response = Inr result \<and>
           get_prop result (lit ''candidates'') = Inr candidates \<and>
           truthy (opt_index0 candidates) \<and> truthy (candidate_text (opt_index0 candidates)) \<and>
           t = candidate_text (opt_index0 candidates)"
proof (cases "http_fetch w i req")
  case (Inl e)
  with assms show ?thesis by (simp add: extracted_text_def)
next
  case response: (Inr response)
  show ?thesis
  proof (cases "ok response")
    case False
    with assms response show ?thesis by (simp add: extracted_text_def)
  next
    case ok: True
    show ?thesis
    proof (cases "json response")
      case (Inl e)
      with assms response ok show ?thesis by (simp add: extracted_text_def)
    next
      case result: (Inr result)
      show ?thesis
      proof (cases "get_prop result (lit ''candidates'')")
        case (Inl e)
        with assms response ok result show ?thesis by (simp add: extracted_text_def)
      next
        case (Inr candidates)
        with assms response ok result show ?thesis
          by (simp add: extracted_text_def split: if_splits)
      qed
    qed
  qed
qed

lemma no_text_fails:
  assumes "extracted_text w req i = None"
  shows "\<exists>e. attempt w req i = Inl e"
proof (cases "http_fetch w i req")
  case (Inl e)
  then show ?thesis by (simp add: attempt_def try_body_def)
next
  case response: (Inr response)
  show ?thesis
  proof (cases "ok response")
    case False
    with response show ?thesis by (simp add: attempt_def try_body_def)
  next
    case ok: True
    show ?thesis
    proof (cases "json response")
      case (Inl e)
      with response ok show ?thesis by (simp add: attempt_def try_body_def)
    next
      case result: (Inr result)
      show ?thesis
      proof (cases "get_prop result (lit ''candidates'')")
        case (Inl e)
        with response ok result show ?thesis by (simp add: attempt_def try_body_def)
      next
        case (Inr candidates)
        show ?thesis
        proof (cases "truthy (opt_index0 candidates) \<and>
                      truthy (candidate_text (opt_index0 candidates))")
          case True
          with assms response ok result Inr show ?thesis by (simp add: extracted_text_def)
        next
          case False
          show ?thesis
            by (simp add: attempt_def try_body_def Let_def response ok result Inr
                if_not_P [OF False])
        qed
      qed
    qed
  qed
qed

lemma attempt_parsed:
  assumes "extracted_text w req i = Some t"
  shows "attempt w req i =
     (case to_string w t of
        Inl e \<Rightarrow> Inl e
      | Inr s \<Rightarrow>
          (case JSON_parse w s of
             Inl e \<Rightarrow> Inl e
           | Inr v \<Rightarrow>
               (case get_prop v (lit ''length'') of
                  Inl e \<Rightarrow> Inl e
                | Inr n \<Rightarrow> (case to_string w n of Inl e \<Rightarrow> Inl e | Inr ns \<Rightarrow> Inr v))))"
proof -
  from extracted_textD [OF assms] obtain response result candidates where
    "http_fetch w i req = Inr response" "ok response" "json response = Inr result"
    "get_prop result (lit ''candidates'') = Inr candidates"
    "truthy (opt_index0 candidates)" "truthy (candidate_text (opt_index0 candidates))"
    "t = candidate_text (opt_index0 candidates)"
    by blast
  then show ?thesis
    by (simp add: attempt_def try_body_def Let_def split: sum.splits)
qed

lemma attempt_success:
  assumes "attempt w req i = Inr c"
  shows "\<exists>t s ls. extracted_text w req i = Some t \<and> to_string w t = Inr s \<and>
           JSON_parse w s = Inr c \<and> to_string w (read_prop c (lit ''length'')) = Inr ls"
proof (cases "extracted_text w req i")
  case None
  from no_text_fails [OF None] assms show ?thesis by auto
next
  case (Some t)
  show ?thesis
  proof (cases "to_string w t")
    case (Inl e)
    with attempt_parsed [OF Some] assms show ?thesis by simp
  next
    case s: (Inr s)
    show ?thesis
    proof (cases "JSON_parse w s")
      case (Inl e)
      with attempt_parsed [OF Some] assms s show ?thesis by simp
    next
      case v: (Inr v)
      show ?thesis
      proof (cases "nullish v")
        case True
        with attempt_parsed [OF Some] assms s v show ?thesis by (simp add: get_prop_def)
      next
        case False
        show ?thesis
        proof (cases "to_string w (read_prop v (lit ''length''))")
          case (Inl e)
          with attempt_parsed [OF Some] assms s v False show ?thesis
            by (simp add: get_prop_def)
        next
          case (Inr ls)
          with attempt_parsed [OF Some] assms s v False have "v = c"
            by (simp add: get_prop_def)
          with Some s v Inr show ?thesis by blast
        qed
      qed
    qed
  qed
qed

section \<open>The loop, unrolled\<close>

lemma retry_loop_2:
  "retry_loop w req (Suc (Suc 0)) raw =
     (case attempt w req (Suc (Suc 0)) of
        Inr c \<Rightarrow> ([Fetch req, generated_info w c], Inr c)
      | Inl e \<Rightarrow> ([Fetch req, try_warning (Suc (Suc (Suc 0))) e],
                  Inl (exhaustion_error w (raw_after w req (Suc (Suc 0)) raw))))"
  by (subst retry_loop.simps)
    (simp add: try_body_eq numeral_2_eq_2 exhaustion_error_def split: sum.splits)

lemma retry_loop_1:
  "retry_loop w req (Suc 0) raw =
     (case attempt w req (Suc 0) of
        Inr c \<Rightarrow> ([Fetch req, generated_info w c], Inr c)
      | Inl e \<Rightarrow>
          (case retry_loop w req (Suc (Suc 0)) (raw_after w req (Suc 0) raw) of
             (ev, r) \<Rightarrow> ([Fetch req, try_warning (Suc (Suc 0)) e, Sleep 4000] @ ev, r)))"
  by (subst retry_loop.simps) (simp add: try_body_eq split: sum.splits)

lemma retry_loop_0:
  "retry_loop w req 0 raw =
     (case attempt w req 0 of
        Inr c \<Rightarrow> ([Fetch req, generated_info w c], Inr c)
      | Inl e \<Rightarrow>
          (case retry_loop w req (Suc 0) (raw_after w req 0 raw) of
             (ev, r) \<Rightarrow> ([Fetch req, try_warning (Suc 0) e, Sleep 2000] @ ev, r)))"
  by (subst retry_loop.simps) (simp add: try_body_eq split: sum.splits)

lemmas retry_loop_unfold = retry_loop_0 retry_loop_1 retry_loop_2 numeral_2_eq_2 numeral_3_eq_3

lemma getGeminiReview_no_post: "filter is_post (fst (getGeminiReview w k m d)) = []"
  by (simp add: getGeminiReview_def retry_loop_unfold split: sum.splits)

lemma getGeminiReview_exhausted:
  assumes "attempt w (gemini_request w k m d) 0 = Inl e0"
    and "attempt w (gemini_request w k m d) 1 = Inl e1"
    and "attempt w (gemini_request w k m d) 2 = Inl e2"
  shows "getGeminiReview w k m d =
     ([sending_info m,
       Fetch (gemini_request w k m d), try_warning 1 e0, Sleep 2000,
       Fetch (gemini_request w k m d), try_warning 2 e1, Sleep 4000,
       Fetch (gemini_request w k m d), try_warning 3 e2],
      Inl (exhaustion_error w (last_raw w (gemini_request w k m d))))"
  using assms
  by (simp add: getGeminiReview_def retry_loop_unfold last_raw_def split: option.splits)

section \<open>Facts about the run\<close>

lemma fetchCodeDiff_significant:
  "pulls_get w (diff_request w) = Inr (Some d) \<Longrightarrow> 10 \<le> length d \<Longrightarrow>
   fetchCodeDiff w (context_owner w) (context_repo w) (context_issue_number w) =
     ([Info (lit ''Fetching diffs from GitHub...''), PullsGet (diff_request w),
       Info (lit ''Code diff successfully fetched. Size: '' @ show_nat (length d) @
             lit '' Bytes.'')],
      Inr (Some d))"
  by (auto simp: fetchCodeDiff_def diff_request_def pulls_get_request_def Let_def)

lemma run_reaches_review:
  assumes "reaches_review w d"
  shows "run w =
     [Info (lit ''Fetching diffs from GitHub...''), PullsGet (diff_request w),
      Info (lit ''Code diff successfully fetched. Size: '' @ show_nat (length d) @
            lit '' Bytes.'')] @
     (case getGeminiReview w (getInput w (lit ''gemini-api-key'')) (getInput w (lit ''model'')) d of
        (ev2, Inl e) \<Rightarrow> ev2 @ [SetFailed (message e)]
      | (ev2, Inr v) \<Rightarrow>
          (case postReviewComments w (context_owner w) (context_repo w)
                  (context_issue_number w) (context_issue_number w) v of
             (ev3, Inl e) \<Rightarrow> ev2 @ ev3 @ [SetFailed (message e)]
           | (ev3, Inr u) \<Rightarrow> ev2 @ ev3))"
proof -
  from assms have d: "pulls_get w (diff_request w) = Inr (Some d)" "10 \<le> length d"
    and ev: "eventName w = lit ''pull_request''"
    and oc: "getOctokit w (getInput w (lit ''github-token'')) = None"
    by (simp_all add: reaches_review_def)
  from d have ne: "d \<noteq> []" by auto
  show ?thesis
    by (simp add: run_def initializeAction_def ev oc fetchCodeDiff_significant [OF d] ne
        split: prod.splits sum.splits)
qed

section \<open>Facts about conversion to string\<close>


lemma length_printable:
  assumes "\<not> nullish v" and "\<forall>ps. v \<noteq> JObj ps"
  shows "\<exists>ls. to_string w (read_prop v (lit ''length'')) = Inr ls"
  using assms by (cases v) (simp_all add: nullish_def)

lemma length_printable_object:
  assumes "map_of ps (lit ''length'') = None"
  shows "to_string w (read_prop (JObj ps) (lit ''length'')) = Inr (lit ''undefined'')"
  using assms by simp

section \<open>Facts about the poster\<close>

lemma github_comment_of_finding: "github_comment_of (finding_value f) = Inr (inline_comment f)"
  by (simp add: github_comment_of_def finding_value_def inline_comment_def get_prop_def nullish_def)

lemma map_callback_findings:
  "map_callback github_comment_of (map finding_value fs) = Inr (map inline_comment fs)"
  by (induction fs) (simp_all add: github_comment_of_finding)

lemma array_map_findings:
  "array_map (JArr (map finding_value fs)) github_comment_of = Inr (map inline_comment fs)"
  by (simp add: array_map_def map_callback_findings)

lemma feedback_entry_finding: "feedback_entry w (inline_comment f) = Inr (finding_line w f)"
  by (simp add: feedback_entry_def inline_comment_def finding_line_def)

lemma map_callback_entries:
  "map_callback (feedback_entry w) (map inline_comment fs) = Inr (map (finding_line w) fs)"
  by (induction fs) (simp_all add: feedback_entry_finding)





lemma fallback_body_lines:
  "fallbackBody w (map inline_comment fs) =
     Inr ((lit ''\<newline>'' @
      lit ''        ## '' @ [0xE2, 0x161, 0xA0, 0xEF, 0xB8] @ lit '' AI Review Error (Fallback)\<newline>'' @
      lit ''        \<newline>'' @
      lit ''        **The attempt to set line-specific comments failed due to invalid line numbers (422 error).**\<newline>'' @
      lit ''        \<newline>'' @
      lit ''        Here is the generated feedback as a general comment:\<newline>'' @
      lit ''        \<newline>'' @
      lit ''        ---\<newline>'' @
      lit ''        \<newline>'' @
      lit ''        **Summary:** '' @
      replace_first review_heading [] (reviewSummary (length fs)) @
      lit '' \<newline>        \<newline>        **Feedback Details:**\<newline>        '') @
     join (lit ''\<newline>'') (map (finding_line w) fs) @
     lit ''\<newline>      '')"
  by (simp only: fallbackBody_def map_callback_entries sum.case length_map append_assoc)

lemma fallback_of_body:
  "fallbackBody w (map inline_comment fs) = Inr (cc_body (fallback_of w owner repo inum fs))"
  by (simp add: fallback_of_def text_of_def fallback_body_lines)



lemma post_mapped:
  assumes "array_map v github_comment_of = Inr gcs"
  shows "postReviewComments w owner repo pn inum v =
     (if gcs = [] then
        (case createComment w \<lparr>cc_owner = owner, cc_repo = repo, cc_issue_number = inum,
                                cc_body = no_issues_body\<rparr> of
           Some e \<Rightarrow>
             ([CreateComment \<lparr>cc_owner = owner, cc_repo = repo, cc_issue_number = inum,
                              cc_body = no_issues_body\<rparr> (Some e)], Inl e)
         | None \<Rightarrow>
             ([CreateComment \<lparr>cc_owner = owner, cc_repo = repo, cc_issue_number = inum,
                              cc_body = no_issues_body\<rparr> None,
               Info (lit ''No comments generated; posted a positive summary comment.'')],
              Inr ()))
      else
        (case createReview w \<lparr>cr_owner = owner, cr_repo = repo, cr_pull_number = pn,
                               cr_event = lit ''COMMENT'',
                               cr_body = reviewSummary (length gcs), cr_comments = gcs\<rparr> of
           None \<Rightarrow>
             ([CreateReview \<lparr>cr_owner = owner, cr_repo = repo, cr_pull_number = pn,
                             cr_event = lit ''COMMENT'',
                             cr_body = reviewSummary (length gcs), cr_comments = gcs\<rparr> None,
               Info (lit ''Review with line-specific comments successfully posted.'')],
              Inr ())
         | Some error \<Rightarrow>
             if status error = JNum 422 then
               (case fallbackBody w gcs of
                  Inl e \<Rightarrow>
                    ([CreateReview \<lparr>cr_owner = owner, cr_repo = repo, cr_pull_number = pn,
                                    cr_event = lit ''COMMENT'',
                                    cr_body = reviewSummary (length gcs),
                                    cr_comments = gcs\<rparr> (Some error),
                      Warning (lit ''ERROR: The GitHub API rejected the review (422 Unprocessable Entity). This indicates the AI generated invalid line numbers.'')],
                     Inl e)
                | Inr fb \<Rightarrow>
                    (case createComment w \<lparr>cc_owner = owner, cc_repo = repo,
                                            cc_issue_number = inum, cc_body = fb\<rparr> of
                       Some e \<Rightarrow>
                         ([CreateReview \<lparr>cr_owner = owner, cr_repo = repo, cr_pull_number = pn,
                                         cr_event = lit ''COMMENT'',
                                         cr_body = reviewSummary (length gcs),
                                         cr_comments = gcs\<rparr> (Some error),
                           Warning (lit ''ERROR: The GitHub API rejected the review (422 Unprocessable Entity). This indicates the AI generated invalid line numbers.''),
                           CreateComment \<lparr>cc_owner = owner, cc_repo = repo,
                                          cc_issue_number = inum, cc_body = fb\<rparr> (Some e)],
                          Inl e)
                     | None \<Rightarrow>
                         ([CreateReview \<lparr>cr_owner = owner, cr_repo = repo, cr_pull_number = pn,
                                         cr_event = lit ''COMMENT'',
                                         cr_body = reviewSummary (length gcs),
                                         cr_comments = gcs\<rparr> (Some error),
                           Warning (lit ''ERROR: The GitHub API rejected the review (422 Unprocessable Entity). This indicates the AI generated invalid line numbers.''),
                           CreateComment \<lparr>cc_owner = owner, cc_repo = repo,
                                          cc_issue_number = inum, cc_body = fb\<rparr> None,
                           Warning (lit ''Posted as a general comment. Action continues.'')],
                          Inr ())))
             else ([CreateReview \<lparr>cr_owner = owner, cr_repo = repo, cr_pull_number = pn,
                                  cr_event = lit ''COMMENT'',
                                  cr_body = reviewSummary (length gcs),
                                  cr_comments = gcs\<rparr> (Some error)], Inl error)))"
  by (simp add: postReviewComments_def assms Let_def split: option.splits sum.splits)

lemma post_throws:
  assumes "array_map v github_comment_of = Inl e"
  shows "postReviewComments w owner repo pn inum v = ([], Inl e)"
  by (simp add: postReviewComments_def assms)

lemma post_findings:
  assumes "fs \<noteq> []"
  shows "postReviewComments w owner repo pn inum (JArr (map finding_value fs)) =
     (case createReview w (review_of owner repo pn fs) of
        None \<Rightarrow>
          ([CreateReview (review_of owner repo pn fs) None,
            Info (lit ''Review with line-specific comments successfully posted.'')],
           Inr ())
      | Some error \<Rightarrow>
          if status error = JNum 422 then
            (case createComment w (fallback_of w owner repo inum fs) of
               Some e \<Rightarrow>
                 ([CreateReview (review_of owner repo pn fs) (Some error),
                   Warning (lit ''ERROR: The GitHub API rejected the review (422 Unprocessable Entity). This indicates the AI generated invalid line numbers.''),
                   CreateComment (fallback_of w owner repo inum fs) (Some e)],
                  Inl e)
             | None \<Rightarrow>
                 ([CreateReview (review_of owner repo pn fs) (Some error),
                   Warning (lit ''ERROR: The GitHub API rejected the review (422 Unprocessable Entity). This indicates the AI generated invalid line numbers.''),
                   CreateComment (fallback_of w owner repo inum fs) None,
                   Warning (lit ''Posted as a general comment. Action continues.'')],
                  Inr ()))
          else ([CreateReview (review_of owner repo pn fs) (Some error)], Inl error))"
proof -
  have fb: "fallbackBody w (map inline_comment fs) =
              Inr (cc_body (fallback_of w owner repo inum fs))"
    by (rule fallback_of_body)
  have args: "\<lparr>cc_owner = owner, cc_repo = repo, cc_issue_number = inum,
               cc_body = cc_body (fallback_of w owner repo inum fs)\<rparr> =
              fallback_of w owner repo inum fs"
    by (simp add: fallback_of_def)
  show ?thesis
    using assms
    by (simp add: post_mapped [OF array_map_findings] fb args review_of_def
        split: option.splits)
qed

section \<open>Facts about the example collaborators\<close>

lemma attempt_unavailable:
  "responses i = Inr unavailable \<Longrightarrow>
   attempt (example_world d responses ra ca) req i =
     Inl (Error (lit ''API error: Service Unavailable''))"
  by (simp add: attempt_def try_body_def example_world_def unavailable_def lit_append [symmetric])

lemma extracted_unavailable:
  "responses i = Inr unavailable \<Longrightarrow>
   extracted_text (example_world d responses ra ca) req i = None"
  by (simp add: extracted_text_def example_world_def unavailable_def)

lemma extracted_payload_response:
  "responses i = Inr (payload_response v) \<Longrightarrow> truthy v \<Longrightarrow>
   extracted_text (example_world d responses ra ca) req i = Some v"
  by (simp add: extracted_text_def example_world_def payload_response_def get_prop_def
      nullish_def opt_index0_def candidate_text_def opt_prop_def)

lemma extracted_text_response:
  "responses i = Inr (text_response t) \<Longrightarrow> t \<noteq> [] \<Longrightarrow>
   extracted_text (example_world d responses ra ca) req i = Some (JStr t)"
  by (rule extracted_payload_response) (simp_all add: text_response_def)

lemma attempt_text_response:
  "responses i = Inr (text_response t) \<Longrightarrow> t \<noteq> [] \<Longrightarrow>
   attempt (example_world d responses ra ca) req i =
     (case example_parse t of
        Inl e \<Rightarrow> Inl e
      | Inr v \<Rightarrow>
          (case get_prop v (lit ''length'') of
             Inl e \<Rightarrow> Inl e
           | Inr n \<Rightarrow>
               (case to_string (example_world d responses ra ca) n of
                  Inl e \<Rightarrow> Inl e
                | Inr ns \<Rightarrow> Inr v)))"
  using attempt_parsed [OF extracted_text_response, of responses i t d ra ca req]
  by (simp add: example_world_def)

lemma to_string_unprintable:
  "to_string w unprintable = Inl (TypeError (lit ''Cannot convert object to primitive value''))"
  by (simp add: unprintable_def)

lemma attempt_unprintable:
  "responses i = Inr (payload_response unprintable) \<Longrightarrow>
   attempt (example_world d responses ra ca) req i =
     Inl (TypeError (lit ''Cannot convert object to primitive value''))"
  using attempt_parsed [OF extracted_payload_response, of responses i unprintable d ra ca req]
  by (simp add: to_string_unprintable) (simp add: unprintable_def)

lemma reaches_review_example:
  "10 \<le> length d \<Longrightarrow> reaches_review (example_world d responses ra ca) d"
  by (simp add: reaches_review_def example_world_def)

lemma length_example_diff: "length example_diff = 50"
  by (simp add: example_diff_def lit_def)

lemma run_request_example:
  "run_request (example_world d responses ra ca) d =
     gemini_request (example_world d responses ra ca) (lit ''KEY'') (lit ''gemini-2.5-flash'') d"
  by (simp add: run_request_def example_world_def)

lemma getInput_example:
  "getInput (example_world d responses ra ca) (lit ''gemini-api-key'') = lit ''KEY''"
  "getInput (example_world d responses ra ca) (lit ''model'') = lit ''gemini-2.5-flash''"
  by (simp_all add: example_world_def)


section \<open>The retry loop\<close>

text \<open>
  Claim C1. The retry loop of \<open>getGeminiReview\<close> calls the model at most three times. It
  sleeps \<open>2000 * 1\<close> ms after a failed first attempt and \<open>2000 * 2\<close> ms after a failed second
  one, and never after the third. An attempt that succeeds ends the loop at once with the
  findings it parsed: the call returns them whether the success is on the first attempt, on
  the second after one delay, or on the third after the two delays 2000 and 4000.
\<close>

theorem retry_three_attempts_linear_backoff:
  "length (filter is_fetch (fst (getGeminiReview w k m d))) \<le> 3 \<and>
   sleeps (fst (getGeminiReview w k m d)) =
     (case attempt w (gemini_request w k m d) 0 of
        Inr c \<Rightarrow> []
      | Inl e0 \<Rightarrow>
          (case attempt w (gemini_request w k m d) 1 of
             Inr c \<Rightarrow> [2000 * 1]
           | Inl e1 \<Rightarrow> [2000 * 1, 2000 * 2])) \<and>
   (attempt w (gemini_request w k m d) 0 = Inr c \<longrightarrow>
      getGeminiReview w k m d =
        ([sending_info m, Fetch (gemini_request w k m d), generated_info w c], Inr c)) \<and>
   (attempt w (gemini_request w k m d) 0 = Inl e0 \<and>
    attempt w (gemini_request w k m d) 1 = Inr c \<longrightarrow>
      getGeminiReview w k m d =
        ([sending_info m,
          Fetch (gemini_request w k m d), try_warning 1 e0, Sleep 2000,
          Fetch (gemini_request w k m d), generated_info w c],
         Inr c)) \<and>
   (attempt w (gemini_request w k m d) 0 = Inl e0 \<and>
    attempt w (gemini_request w k m d) 1 = Inl e1 \<and>
    attempt w (gemini_request w k m d) 2 = Inr c \<longrightarrow>
      getGeminiReview w k m d =
        ([sending_info m,
          Fetch (gemini_request w k m d), try_warning 1 e0, Sleep 2000,
          Fetch (gemini_request w k m d), try_warning 2 e1, Sleep 4000,
          Fetch (gemini_request w k m d), generated_info w c],
         Inr c)) \<and>
   (attempt w (gemini_request w k m d) i = Inr c \<longrightarrow>
      (\<exists>t s ls. extracted_text w (gemini_request w k m d) i = Some t \<and>
           to_string w t = Inr s \<and> JSON_parse w s = Inr c \<and>
           to_string w (read_prop c (lit ''length'')) = Inr ls))"
proof -
  have "attempt w (gemini_request w k m d) i = Inr c \<longrightarrow>
      (\<exists>t s ls. extracted_text w (gemini_request w k m d) i = Some t \<and>
           to_string w t = Inr s \<and> JSON_parse w s = Inr c \<and>
           to_string w (read_prop c (lit ''length'')) = Inr ls)"
    using attempt_success by blast
  then show ?thesis
    by (simp add: getGeminiReview_def retry_loop_unfold split: sum.splits)
qed

text \<open>The theorem at a concrete input.\<close>
theorem retry_three_attempts_linear_backoff_witness:
  "attempt (example_world example_diff third_time_lucky None None)
     (gemini_request (example_world example_diff third_time_lucky None None)
        (lit ''KEY'') (lit ''gemini-2.5-flash'') example_diff) 0 =
     Inl (Error (lit ''API error: Service Unavailable'')) \<and>
   attempt (example_world example_diff third_time_lucky None None)
     (gemini_request (example_world example_diff third_time_lucky None None)
        (lit ''KEY'') (lit ''gemini-2.5-flash'') example_diff) 1 =
     Inl (Error (lit ''API error: Service Unavailable'')) \<and>
   attempt (example_world example_diff third_time_lucky None None)
     (gemini_request (example_world example_diff third_time_lucky None None)
        (lit ''KEY'') (lit ''gemini-2.5-flash'') example_diff) 2 = Inr (JArr []) \<and>
   snd (getGeminiReview (example_world example_diff third_time_lucky None None)
     (lit ''KEY'') (lit ''gemini-2.5-flash'') example_diff) = Inr (JArr []) \<and>
   sleeps (fst (getGeminiReview (example_world example_diff third_time_lucky None None)
     (lit ''KEY'') (lit ''gemini-2.5-flash'') example_diff)) = [2000, 4000] \<and>
   attempt (example_world example_diff (always (text_response (lit ''[]''))) None None)
     (gemini_request (example_world example_diff (always (text_response (lit ''[]''))) None None)
        (lit ''KEY'') (lit ''gemini-2.5-flash'') example_diff) 0 = Inr (JArr []) \<and>
   snd (getGeminiReview
          (example_world example_diff (always (text_response (lit ''[]''))) None None)
          (lit ''KEY'') (lit ''gemini-2.5-flash'') example_diff) = Inr (JArr []) \<and>
   sleeps (fst (getGeminiReview
          (example_world example_diff (always (text_response (lit ''[]''))) None None)
          (lit ''KEY'') (lit ''gemini-2.5-flash'') example_diff)) = []"
proof -
  let ?w = "example_world example_diff third_time_lucky None None"
  let ?req = "gemini_request ?w (lit ''KEY'') (lit ''gemini-2.5-flash'') example_diff"
  let ?v = "example_world example_diff (always (text_response (lit ''[]''))) None None"
  let ?reqv = "gemini_request ?v (lit ''KEY'') (lit ''gemini-2.5-flash'') example_diff"
  have a0: "attempt ?w ?req 0 = Inl (Error (lit ''API error: Service Unavailable''))"
    by (rule attempt_unavailable) (simp add: third_time_lucky_def)
  have a1: "attempt ?w ?req 1 = Inl (Error (lit ''API error: Service Unavailable''))"
    by (rule attempt_unavailable) (simp add: third_time_lucky_def)
  have a2: "attempt ?w ?req 2 = Inr (JArr [])"
    by (subst attempt_text_response [where t = "lit ''[]''"])
      (simp_all add: third_time_lucky_def example_parse_def get_prop_def nullish_def)
  have b0: "attempt ?v ?reqv 0 = Inr (JArr [])"
    by (subst attempt_text_response [where t = "lit ''[]''"])
      (simp_all add: always_def example_parse_def get_prop_def nullish_def)
  show ?thesis
    using retry_three_attempts_linear_backoff
            [of ?w "lit ''KEY''" "lit ''gemini-2.5-flash''" example_diff "JArr []"
                "Error (lit ''API error: Service Unavailable'')"
                "Error (lit ''API error: Service Unavailable'')"]
          retry_three_attempts_linear_backoff
            [of ?v "lit ''KEY''" "lit ''gemini-2.5-flash''" example_diff "JArr []"]
          a0 a1 a2 b0
    by simp
qed

text \<open>
  Claim C2, amended. When all three attempts fail, for whatever reason, \<open>getGeminiReview\<close>
  throws. When the last raw response text (the text payload of the latest attempt that
  extracted one) has a conversion to a string, as every string has, the error's message is
  the fixed prefix followed by that text. The requester makes no posting call, and a run
  that got as far as the requester makes none either: it ends by reporting the thrown
  error's message as its failure.
\<close>

theorem exhaustion_raises_last_raw_no_post:
  assumes "attempt w (gemini_request w k m d) 0 = Inl e0"
    and "attempt w (gemini_request w k m d) 1 = Inl e1"
    and "attempt w (gemini_request w k m d) 2 = Inl e2"
  shows "snd (getGeminiReview w k m d) =
           Inl (exhaustion_error w (last_raw w (gemini_request w k m d))) \<and>
         (to_string w (last_raw w (gemini_request w k m d)) = Inr s \<longrightarrow>
            snd (getGeminiReview w k m d) =
              Inl (Error (lit ''Gemini API request has failed after multiple tries. Last raw response: '' @ s)) \<and>
            message (exhaustion_error w (last_raw w (gemini_request w k m d))) =
              lit ''Gemini API request has failed after multiple tries. Last raw response: '' @ s) \<and>
         (last_raw w (gemini_request w k m d) = JStr s \<longrightarrow>
            message (exhaustion_error w (last_raw w (gemini_request w k m d))) =
              lit ''Gemini API request has failed after multiple tries. Last raw response: '' @ s) \<and>
         filter is_post (fst (getGeminiReview w k m d)) = [] \<and>
         (reaches_review w d \<and> k = getInput w (lit ''gemini-api-key'') \<and>
          m = getInput w (lit ''model'') \<longrightarrow>
            filter is_post (run w) = [] \<and>
            last (run w) =
              SetFailed (message (exhaustion_error w (last_raw w (gemini_request w k m d)))))"
proof -
  note ex = getGeminiReview_exhausted [OF assms]
  have "reaches_review w d \<Longrightarrow> k = getInput w (lit ''gemini-api-key'') \<Longrightarrow>
        m = getInput w (lit ''model'') \<Longrightarrow>
        filter is_post (run w) = [] \<and>
        last (run w) =
          SetFailed (message (exhaustion_error w (last_raw w (gemini_request w k m d))))"
    using ex by (simp add: run_reaches_review)
  then show ?thesis
    using ex by (auto simp: exhaustion_error_def Error_def)
qed

text \<open>The theorem at a concrete input.\<close>
theorem exhaustion_raises_last_raw_no_post_witness:
  "attempt (example_world example_diff (always (text_response (lit ''not json''))) None None)
     (gemini_request (example_world example_diff (always (text_response (lit ''not json''))) None None)
        (lit ''KEY'') (lit ''gemini-2.5-flash'') example_diff) 0 =
     Inl \<lparr>message = lit ''Unexpected token'', status = JUndefined\<rparr> \<and>
   reaches_review (example_world example_diff (always (text_response (lit ''not json''))) None None)
     example_diff \<and>
   last_raw (example_world example_diff (always (text_response (lit ''not json''))) None None)
     (gemini_request (example_world example_diff (always (text_response (lit ''not json''))) None None)
        (lit ''KEY'') (lit ''gemini-2.5-flash'') example_diff) = JStr (lit ''not json'') \<and>
   snd (getGeminiReview
          (example_world example_diff (always (text_response (lit ''not json''))) None None)
          (lit ''KEY'') (lit ''gemini-2.5-flash'') example_diff) =
     Inl (Error (lit ''Gemini API request has failed after multiple tries. Last raw response: '' @
                 lit ''not json'')) \<and>
   filter is_post
     (run (example_world example_diff (always (text_response (lit ''not json''))) None None)) = []"
proof -
  let ?w = "example_world example_diff (always (text_response (lit ''not json''))) None None"
  let ?req = "gemini_request ?w (lit ''KEY'') (lit ''gemini-2.5-flash'') example_diff"
  have a: "attempt ?w ?req i = Inl \<lparr>message = lit ''Unexpected token'', status = JUndefined\<rparr>"
    for i
    by (subst attempt_text_response [where t = "lit ''not json''"])
      (simp_all add: always_def example_parse_def)
  have x: "extracted_text ?w ?req i = Some (JStr (lit ''not json''))" for i
    by (rule extracted_text_response) (simp_all add: always_def)
  have r: "reaches_review ?w example_diff"
    by (rule reaches_review_example) (simp add: length_example_diff)
  have l: "last_raw ?w ?req = JStr (lit ''not json'')"
    by (simp add: last_raw_def x)
  have t: "to_string ?w (last_raw ?w ?req) = Inr (lit ''not json'')"
    by (simp add: l)
  show ?thesis
    using exhaustion_raises_last_raw_no_post [OF a [of 0] a [of 1] a [of 2], of "lit ''not json''"]
      r l t a [of 0]
    by (simp add: getInput_example exhaustion_error_def)
qed

text \<open>
  Claim C2 as stated fails when the text payload is not a string but an object with a
  property named \<open>toString\<close>: every attempt fails, and building the message of the final
  error throws a \<open>TypeError\<close>, which is what the call raises. Its message holds neither the
  prefix nor the payload.
\<close>

theorem exhaustion_without_raw_text:
  "attempt unprintable_world unprintable_request 0 =
     Inl (TypeError (lit ''Cannot convert object to primitive value'')) \<and>
   attempt unprintable_world unprintable_request 1 =
     Inl (TypeError (lit ''Cannot convert object to primitive value'')) \<and>
   attempt unprintable_world unprintable_request 2 =
     Inl (TypeError (lit ''Cannot convert object to primitive value'')) \<and>
   last_raw unprintable_world unprintable_request = unprintable \<and>
   snd (getGeminiReview unprintable_world (lit ''KEY'') (lit ''gemini-2.5-flash'') example_diff) =
     Inl (TypeError (lit ''Cannot convert object to primitive value'')) \<and>
   message (TypeError (lit ''Cannot convert object to primitive value'')) =
     lit ''Cannot convert object to primitive value'' \<and>
   \<not> sublist (lit ''Last raw response'')
       (message (TypeError (lit ''Cannot convert object to primitive value'')))"
proof -
  have a: "attempt unprintable_world req i =
             Inl (TypeError (lit ''Cannot convert object to primitive value''))" for req i
    unfolding unprintable_world_def
    by (rule attempt_unprintable) (simp add: always_def)
  have x: "extracted_text unprintable_world req i = Some unprintable" for req i
    unfolding unprintable_world_def
    by (rule extracted_payload_response) (simp_all add: always_def unprintable_def)
  have l: "last_raw unprintable_world req = unprintable" for req
    by (simp add: last_raw_def x)
  have q: "unprintable_request =
             gemini_request unprintable_world (lit ''KEY'') (lit ''gemini-2.5-flash'')
               example_diff"
    by (simp add: unprintable_request_def unprintable_world_def run_request_example)
  have n: "\<not> sublist (lit ''Last raw response'')
       (message (TypeError (lit ''Cannot convert object to primitive value'')))"
    by (simp add: TypeError_def lit_def sublist_Cons_right)
  show ?thesis
    using getGeminiReview_exhausted [OF a a a, where k = "lit ''KEY''"
        and m = "lit ''gemini-2.5-flash''" and d = example_diff] n
    by (simp add: a l exhaustion_error_def to_string_unprintable TypeError_def)
qed

text \<open>
  Claim C10, amended. An attempt changes \<open>rawJsonText\<close> only when it extracts a text
  payload. So when the third attempt fails before extracting one, the final throw is built
  from the text of the second attempt if it extracted one, else from that of the first, else
  from the empty string: when that text has a conversion to a string, as every string has,
  the exhaustion message carries it after the fixed prefix.
\<close>

theorem last_raw_only_from_extracting_attempts:
  "fst (snd (try_body w req i raw)) =
     (case extracted_text w req i of Some t \<Rightarrow> t | None \<Rightarrow> raw) \<and>
   (attempt w (gemini_request w k m d) 0 = Inl e0 \<and>
    attempt w (gemini_request w k m d) 1 = Inl e1 \<and>
    extracted_text w (gemini_request w k m d) 2 = None \<longrightarrow>
      snd (getGeminiReview w k m d) =
        Inl (exhaustion_error w
               (case extracted_text w (gemini_request w k m d) 1 of
                  Some t \<Rightarrow> t
                | None \<Rightarrow>
                    (case extracted_text w (gemini_request w k m d) 0 of
                       Some t \<Rightarrow> t
                     | None \<Rightarrow> JStr []))) \<and>
      (to_string w
         (case extracted_text w (gemini_request w k m d) 1 of
            Some t \<Rightarrow> t
          | None \<Rightarrow>
              (case extracted_text w (gemini_request w k m d) 0 of
                 Some t \<Rightarrow> t
               | None \<Rightarrow> JStr [])) = Inr s \<longrightarrow>
       snd (getGeminiReview w k m d) =
         Inl (Error (lit ''Gemini API request has failed after multiple tries. Last raw response: '' @
                     s)))) \<and>
   (extracted_text w (gemini_request w k m d) 0 = None \<and>
    extracted_text w (gemini_request w k m d) 1 = None \<and>
    extracted_text w (gemini_request w k m d) 2 = None \<longrightarrow>
      snd (getGeminiReview w k m d) =
        Inl (Error (lit ''Gemini API request has failed after multiple tries. Last raw response: '' @
                    [])))"
proof -
  let ?req = "gemini_request w k m d"
  let ?earlier = "case extracted_text w ?req 1 of
                    Some t \<Rightarrow> t
                  | None \<Rightarrow> (case extracted_text w ?req 0 of Some t \<Rightarrow> t | None \<Rightarrow> JStr [])"
  have B: "snd (getGeminiReview w k m d) = Inl (exhaustion_error w ?earlier)"
    if h: "attempt w ?req 0 = Inl e0" "attempt w ?req 1 = Inl e1"
      "extracted_text w ?req 2 = None"
  proof -
    from no_text_fails [OF h(3)] obtain e2 where "attempt w ?req 2 = Inl e2" by blast
    from getGeminiReview_exhausted [OF h(1) h(2) this] h(3)
    show ?thesis by (simp add: last_raw_def)
  qed
  have B': "to_string w ?earlier = Inr s \<Longrightarrow>
            exhaustion_error w ?earlier = Error (exhausted_message s)"
    by (simp add: exhaustion_error_def)
  have C: "snd (getGeminiReview w k m d) = Inl (Error (exhausted_message []))"
    if h: "extracted_text w ?req 0 = None" "extracted_text w ?req 1 = None"
      "extracted_text w ?req 2 = None"
  proof -
    from no_text_fails [OF h(1)] obtain e0 where 0: "attempt w ?req 0 = Inl e0" by blast
    from no_text_fails [OF h(2)] obtain e1 where 1: "attempt w ?req 1 = Inl e1" by blast
    from no_text_fails [OF h(3)] obtain e2 where 2: "attempt w ?req 2 = Inl e2" by blast
    from getGeminiReview_exhausted [OF 0 1 2] h
    show ?thesis by (simp add: last_raw_def exhaustion_error_def)
  qed
  from B B' C show ?thesis by (simp add: try_body_raw)
qed

text \<open>The theorem at a concrete input.\<close>
theorem last_raw_only_from_extracting_attempts_witness:
  "attempt (example_world example_diff garbled_then_down None None)
     (gemini_request (example_world example_diff garbled_then_down None None)
        (lit ''KEY'') (lit ''gemini-2.5-flash'') example_diff) 0 =
     Inl \<lparr>message = lit ''Unexpected token'', status = JUndefined\<rparr> \<and>
   attempt (example_world example_diff garbled_then_down None None)
     (gemini_request (example_world example_diff garbled_then_down None None)
        (lit ''KEY'') (lit ''gemini-2.5-flash'') example_diff) 1 =
     Inl (Error (lit ''API error: Service Unavailable'')) \<and>
   extracted_text (example_world example_diff garbled_then_down None None)
     (gemini_request (example_world example_diff garbled_then_down None None)
        (lit ''KEY'') (lit ''gemini-2.5-flash'') example_diff) 2 = None \<and>
   snd (getGeminiReview (example_world example_diff garbled_then_down None None)
          (lit ''KEY'') (lit ''gemini-2.5-flash'') example_diff) =
     Inl (Error (lit ''Gemini API request has failed after multiple tries. Last raw response: '' @
                 lit ''not json'')) \<and>
   extracted_text (example_world example_diff (always unavailable) None None)
     (gemini_request (example_world example_diff (always unavailable) None None)
        (lit ''KEY'') (lit ''gemini-2.5-flash'') example_diff) 0 = None \<and>
   snd (getGeminiReview (example_world example_diff (always unavailable) None None)
          (lit ''KEY'') (lit ''gemini-2.5-flash'') example_diff) =
     Inl (Error (lit ''Gemini API request has failed after multiple tries. Last raw response: ''))"
proof -
  let ?w = "example_world example_diff garbled_then_down None None"
  let ?req = "gemini_request ?w (lit ''KEY'') (lit ''gemini-2.5-flash'') example_diff"
  let ?u = "example_world example_diff (always unavailable) None None"
  let ?requ = "gemini_request ?u (lit ''KEY'') (lit ''gemini-2.5-flash'') example_diff"
  have a0: "attempt ?w ?req 0 = Inl \<lparr>message = lit ''Unexpected token'', status = JUndefined\<rparr>"
    by (subst attempt_text_response [where t = "lit ''not json''"])
      (simp_all add: garbled_then_down_def example_parse_def)
  have a1: "attempt ?w ?req 1 = Inl (Error (lit ''API error: Service Unavailable''))"
    by (rule attempt_unavailable) (simp add: garbled_then_down_def)
  have x0: "extracted_text ?w ?req 0 = Some (JStr (lit ''not json''))"
    by (rule extracted_text_response) (simp_all add: garbled_then_down_def)
  have x1: "extracted_text ?w ?req 1 = None"
    by (rule extracted_unavailable) (simp add: garbled_then_down_def)
  have x2: "extracted_text ?w ?req 2 = None"
    by (rule extracted_unavailable) (simp add: garbled_then_down_def)
  have u: "extracted_text ?u ?requ i = None" for i
    by (rule extracted_unavailable) (simp add: always_def)
  show ?thesis
    using last_raw_only_from_extracting_attempts
            [of ?w _ _ _ "lit ''KEY''" "lit ''gemini-2.5-flash''" example_diff
                "\<lparr>message = lit ''Unexpected token'', status = JUndefined\<rparr>"
                "Error (lit ''API error: Service Unavailable'')" "lit ''not json''"]
      last_raw_only_from_extracting_attempts
            [of ?u _ _ _ "lit ''KEY''" "lit ''gemini-2.5-flash''" example_diff]
      a0 a1 x0 x1 x2 u
    by (simp add: exhaustion_error_def)
qed

text \<open>
  Claim C10 as stated fails when the text captured earlier is not a string but an object
  with a property named \<open>toString\<close>: the first attempt captures it and fails, the other two
  fail before any text, and the final throw raises the \<open>TypeError\<close> of converting it, whose
  message holds no captured text.
\<close>

theorem earlier_text_without_conversion:
  "extracted_text unprintable_first_world unprintable_first_request 0 = Some unprintable \<and>
   attempt unprintable_first_world unprintable_first_request 0 =
     Inl (TypeError (lit ''Cannot convert object to primitive value'')) \<and>
   attempt unprintable_first_world unprintable_first_request 1 =
     Inl (Error (lit ''API error: Service Unavailable'')) \<and>
   extracted_text unprintable_first_world unprintable_first_request 1 = None \<and>
   extracted_text unprintable_first_world unprintable_first_request 2 = None \<and>
   snd (getGeminiReview unprintable_first_world (lit ''KEY'') (lit ''gemini-2.5-flash'')
          example_diff) =
     Inl (TypeError (lit ''Cannot convert object to primitive value'')) \<and>
   message (TypeError (lit ''Cannot convert object to primitive value'')) =
     lit ''Cannot convert object to primitive value''"
proof -
  have a0: "attempt unprintable_first_world req 0 =
             Inl (TypeError (lit ''Cannot convert object to primitive value''))" for req
    unfolding unprintable_first_world_def
    by (rule attempt_unprintable) (simp add: unprintable_then_down_def)
  have a1: "attempt unprintable_first_world req (Suc n) =
             Inl (Error (lit ''API error: Service Unavailable''))" for req n
    unfolding unprintable_first_world_def
    by (rule attempt_unavailable) (simp add: unprintable_then_down_def)
  have x0: "extracted_text unprintable_first_world req 0 = Some unprintable" for req
    unfolding unprintable_first_world_def
    by (rule extracted_payload_response)
      (simp_all add: unprintable_then_down_def unprintable_def)
  have x1: "extracted_text unprintable_first_world req (Suc n) = None" for req n
    unfolding unprintable_first_world_def
    by (rule extracted_unavailable) (simp add: unprintable_then_down_def)
  have l: "last_raw unprintable_first_world req = unprintable" for req
    using x0 [of req] x1 [of req 0] x1 [of req 1] by (simp add: last_raw_def numeral_2_eq_2)
  have e: "snd (getGeminiReview unprintable_first_world (lit ''KEY'')
                  (lit ''gemini-2.5-flash'') example_diff) =
             Inl (TypeError (lit ''Cannot convert object to primitive value''))"
    using getGeminiReview_exhausted
            [OF a0 a1 [of _ 0, unfolded One_nat_def [symmetric]]
                a1 [of _ 1, unfolded Suc_1], where k = "lit ''KEY''"
        and m = "lit ''gemini-2.5-flash''" and d = example_diff]
    by (simp add: l exhaustion_error_def to_string_unprintable)
  show ?thesis
    using a0 a1 [of unprintable_first_request 0] x0 x1 [of unprintable_first_request 0]
      x1 [of unprintable_first_request 1] e
    by (simp add: TypeError_def numeral_2_eq_2)
qed

text \<open>
  Claim C9, amended. The source validates nothing about the parsed value beyond what its
  info line needs: reading \<open>comments.length\<close> and printing it. An attempt whose text parses
  to a value other than \<open>null\<close> whose \<open>length\<close> can be printed succeeds and returns that
  value, whatever its shape; this covers every array, string, number and boolean and every
  object without a \<open>length\<close> property. When the value is not an array,
  \<open>postReviewComments\<close> throws a \<open>TypeError\<close> before any posting call; in a run this happens
  after a single model call, outside the retry loop, and the run ends by reporting the
  error. A text that parses to \<open>null\<close> makes the read of \<open>comments.length\<close> throw inside
  the \<open>try\<close> block: the attempt fails, and a first attempt that fails so is followed by
  the delay and a second attempt.
\<close>

theorem parsed_non_null_returned_unvalidated:
  assumes "extracted_text w req i = Some t"
    and "to_string w t = Inr s"
    and "JSON_parse w s = Inr v"
  shows
   "(\<not> nullish v \<and> to_string w (read_prop v (lit ''length'')) = Inr ls \<longrightarrow>
       attempt w req i = Inr v) \<and>
    (\<not> nullish v \<and> (\<forall>ps. v \<noteq> JObj ps) \<longrightarrow> attempt w req i = Inr v) \<and>
    (v = JObj ps \<and> map_of ps (lit ''length'') = None \<longrightarrow> attempt w req i = Inr v) \<and>
    (attempt w req i = Inr v \<and> (\<forall>xs. v \<noteq> JArr xs) \<longrightarrow>
       postReviewComments w owner repo pn inum v =
         ([], Inl (TypeError (lit ''aiReviewComments.map is not a function''))) \<and>
       (reaches_review w d \<and> req = run_request w d \<and> i = 0 \<longrightarrow>
          run w =
            [Info (lit ''Fetching diffs from GitHub...''), PullsGet (diff_request w),
             Info (lit ''Code diff successfully fetched. Size: '' @ show_nat (length d) @
                   lit '' Bytes.''),
             sending_info (getInput w (lit ''model'')), Fetch req, generated_info w v,
             SetFailed (lit ''aiReviewComments.map is not a function'')] \<and>
          length (filter is_fetch (run w)) = 1 \<and>
          sleeps (run w) = [] \<and>
          filter is_post (run w) = [])) \<and>
    (nullish v \<longrightarrow>
       (\<exists>e. attempt w req i = Inl e) \<and>
       (req = gemini_request w k m d \<and> i = 0 \<longrightarrow>
          2 \<le> length (filter is_fetch (fst (getGeminiReview w k m d))) \<and>
          take 1 (sleeps (fst (getGeminiReview w k m d))) = [2000]))"
proof -
  note ap = attempt_parsed [OF assms(1)]
  have A: "attempt w req i = Inr v"
    if "\<not> nullish v" "to_string w (read_prop v (lit ''length'')) = Inr ls" for ls
    using ap assms(2,3) that by (simp add: get_prop_def)
  have A1: "attempt w req i = Inr v" if "\<not> nullish v" "\<forall>ps. v \<noteq> JObj ps"
    using length_printable [OF that, of w] A [OF that(1)] by blast
  have A2: "attempt w req i = Inr v" if "v = JObj ps" "map_of ps (lit ''length'') = None"
    using A [of "lit ''undefined''"] length_printable_object [OF that(2), of w] that(1)
    by (simp add: nullish_def)
  have N: "\<exists>e. attempt w req i = Inl e" if "nullish v"
    using ap assms(2,3) that by (simp add: get_prop_def)
  have R: "2 \<le> length (filter is_fetch (fst (getGeminiReview w k m d))) \<and>
          take 1 (sleeps (fst (getGeminiReview w k m d))) = [2000]"
    if "nullish v" "req = gemini_request w k m d" "i = 0"
  proof -
    from N [OF that(1)] that(2,3) obtain e where "attempt w (gemini_request w k m d) 0 = Inl e"
      by auto
    then show ?thesis
      by (simp add: getGeminiReview_def retry_loop_unfold split: sum.splits)
  qed
  have B: "postReviewComments w owner repo pn inum v =
         ([], Inl (TypeError (lit ''aiReviewComments.map is not a function'')))"
    if "attempt w req i = Inr v" "\<forall>xs. v \<noteq> JArr xs" for owner repo pn inum
  proof -
    have nn: "\<not> nullish v"
      using N that(1) by auto
    have "array_map v github_comment_of =
            Inl (TypeError (lit ''aiReviewComments.map is not a function''))"
      using that(2) nn by (cases v) (simp_all add: array_map_def)
    then show ?thesis by (rule post_throws)
  qed
  have C: "run w =
            [Info (lit ''Fetching diffs from GitHub...''), PullsGet (diff_request w),
             Info (lit ''Code diff successfully fetched. Size: '' @ show_nat (length d) @
                   lit '' Bytes.''),
             sending_info (getInput w (lit ''model'')), Fetch req, generated_info w v,
             SetFailed (lit ''aiReviewComments.map is not a function'')]"
    if a: "attempt w req i = Inr v" and na: "\<forall>xs. v \<noteq> JArr xs"
      and r: "reaches_review w d" and q: "req = run_request w d" and i: "i = 0"
  proof -
    have "attempt w (gemini_request w (getInput w (lit ''gemini-api-key''))
                       (getInput w (lit ''model'')) d) 0 = Inr v"
      using a q i by (simp add: run_request_def)
    then have "getGeminiReview w (getInput w (lit ''gemini-api-key''))
                 (getInput w (lit ''model'')) d =
               ([sending_info (getInput w (lit ''model'')), Fetch req, generated_info w v],
                Inr v)"
      using q by (simp add: getGeminiReview_def retry_loop_unfold run_request_def)
    then show ?thesis
      by (simp add: run_reaches_review [OF r] B [OF a na] TypeError_def)
  qed
  have P1: "\<not> nullish v \<and> to_string w (read_prop v (lit ''length'')) = Inr ls \<longrightarrow>
       attempt w req i = Inr v"
    using A by blast
  have P2: "\<not> nullish v \<and> (\<forall>ps. v \<noteq> JObj ps) \<longrightarrow> attempt w req i = Inr v"
    using A1 by blast
  have P3: "v = JObj ps \<and> map_of ps (lit ''length'') = None \<longrightarrow> attempt w req i = Inr v"
    using A2 by blast
  have P4: "attempt w req i = Inr v \<and> (\<forall>xs. v \<noteq> JArr xs) \<longrightarrow>
       postReviewComments w owner repo pn inum v =
         ([], Inl (TypeError (lit ''aiReviewComments.map is not a function''))) \<and>
       (reaches_review w d \<and> req = run_request w d \<and> i = 0 \<longrightarrow>
          run w =
            [Info (lit ''Fetching diffs from GitHub...''), PullsGet (diff_request w),
             Info (lit ''Code diff successfully fetched. Size: '' @ show_nat (length d) @
                   lit '' Bytes.''),
             sending_info (getInput w (lit ''model'')), Fetch req, generated_info w v,
             SetFailed (lit ''aiReviewComments.map is not a function'')] \<and>
          length (filter is_fetch (run w)) = 1 \<and>
          sleeps (run w) = [] \<and>
          filter is_post (run w) = [])"
  proof (intro impI conjI)
    assume h: "attempt w req i = Inr v \<and> (\<forall>xs. v \<noteq> JArr xs)"
    then show "postReviewComments w owner repo pn inum v =
         ([], Inl (TypeError (lit ''aiReviewComments.map is not a function'')))"
      using B by blast
    assume g: "reaches_review w d \<and> req = run_request w d \<and> i = 0"
    from h g have c: "run w =
            [Info (lit ''Fetching diffs from GitHub...''), PullsGet (diff_request w),
             Info (lit ''Code diff successfully fetched. Size: '' @ show_nat (length d) @
                   lit '' Bytes.''),
             sending_info (getInput w (lit ''model'')), Fetch req, generated_info w v,
             SetFailed (lit ''aiReviewComments.map is not a function'')]"
      using C by blast
    then show "run w =
            [Info (lit ''Fetching diffs from GitHub...''), PullsGet (diff_request w),
             Info (lit ''Code diff successfully fetched. Size: '' @ show_nat (length d) @
                   lit '' Bytes.''),
             sending_info (getInput w (lit ''model'')), Fetch req, generated_info w v,
             SetFailed (lit ''aiReviewComments.map is not a function'')]" .
    show "length (filter is_fetch (run w)) = 1" by (simp add: c)
    show "sleeps (run w) = []" by (simp add: c)
    show "filter is_post (run w) = []" by (simp add: c)
  qed
  have P5: "nullish v \<longrightarrow>
       (\<exists>e. attempt w req i = Inl e) \<and>
       (req = gemini_request w k m d \<and> i = 0 \<longrightarrow>
          2 \<le> length (filter is_fetch (fst (getGeminiReview w k m d))) \<and>
          take 1 (sleeps (fst (getGeminiReview w k m d))) = [2000])"
    using N R by blast
  from P1 P2 P3 P4 P5 show ?thesis by blast
qed

text \<open>The theorem at a concrete input.\<close>
theorem parsed_non_null_returned_unvalidated_witness:
  "extracted_text (example_world example_diff (always (text_response (lit ''{}''))) None None)
     (run_request (example_world example_diff (always (text_response (lit ''{}''))) None None)
        example_diff) 0 = Some (JStr (lit ''{}'')) \<and>
   to_string (example_world example_diff (always (text_response (lit ''{}''))) None None)
     (JStr (lit ''{}'')) = Inr (lit ''{}'') \<and>
   JSON_parse (example_world example_diff (always (text_response (lit ''{}''))) None None)
     (lit ''{}'') = Inr (JObj []) \<and>
   \<not> nullish (JObj []) \<and>
   map_of [] (lit ''length'') = (None :: jsval option) \<and>
   reaches_review (example_world example_diff (always (text_response (lit ''{}''))) None None)
     example_diff \<and>
   attempt (example_world example_diff (always (text_response (lit ''{}''))) None None)
     (run_request (example_world example_diff (always (text_response (lit ''{}''))) None None)
        example_diff) 0 = Inr (JObj []) \<and>
   length (filter is_fetch
     (run (example_world example_diff (always (text_response (lit ''{}''))) None None))) = 1 \<and>
   filter is_post
     (run (example_world example_diff (always (text_response (lit ''{}''))) None None)) = [] \<and>
   last (run (example_world example_diff (always (text_response (lit ''{}''))) None None)) =
     SetFailed (lit ''aiReviewComments.map is not a function'') \<and>
   extracted_text null_text_world null_text_request 0 = Some (JStr (lit ''null'')) \<and>
   JSON_parse null_text_world (lit ''null'') = Inr JNull \<and>
   nullish JNull \<and>
   2 \<le> length (filter is_fetch
          (fst (getGeminiReview null_text_world (lit ''KEY'') (lit ''gemini-2.5-flash'')
                  example_diff)))"
proof -
  let ?w = "example_world example_diff (always (text_response (lit ''{}''))) None None"
  have x: "extracted_text ?w (run_request ?w example_diff) 0 = Some (JStr (lit ''{}''))"
    by (rule extracted_text_response) (simp_all add: always_def)
  have t: "to_string ?w (JStr (lit ''{}'')) = Inr (lit ''{}'')"
    by simp
  have p: "JSON_parse ?w (lit ''{}'') = Inr (JObj [])"
    by (simp add: example_world_def example_parse_def)
  have n: "\<not> nullish (JObj [])" "nullish JNull"
    by (simp_all add: nullish_def)
  have r: "reaches_review ?w example_diff"
    by (rule reaches_review_example) (simp add: length_example_diff)
  have x': "extracted_text null_text_world null_text_request 0 = Some (JStr (lit ''null''))"
    unfolding null_text_world_def
    by (rule extracted_text_response) (simp_all add: always_def)
  have t': "to_string null_text_world (JStr (lit ''null'')) = Inr (lit ''null'')"
    by simp
  have p': "JSON_parse null_text_world (lit ''null'') = Inr JNull"
    by (simp add: null_text_world_def example_world_def example_parse_def)
  have q': "null_text_request =
             gemini_request null_text_world (lit ''KEY'') (lit ''gemini-2.5-flash'') example_diff"
    by (simp add: null_text_request_def null_text_world_def run_request_example)
  show ?thesis
    using parsed_non_null_returned_unvalidated
            [OF x t p, where ls = "lit ''undefined''" and ps = "[]" and owner = "lit ''octo''"
               and repo = "lit ''demo''" and pn = 7 and inum = 7 and d = example_diff]
      parsed_non_null_returned_unvalidated
            [OF x' t' p', where k = "lit ''KEY''" and m = "lit ''gemini-2.5-flash''"
               and d = example_diff]
      x t p n r x' p' q'
    by simp
qed

text \<open>
  Claim C9 as stated fails on the text \<open>null\<close>: it parses, to \<open>null\<close>, but reading
  \<open>comments.length\<close> then throws inside the \<open>try\<close> block, so the attempt counts as failed
  and is retried. A model that always answers \<open>null\<close> exhausts the three attempts.
\<close>

theorem null_text_is_retried:
  "extracted_text null_text_world null_text_request 0 = Some (JStr (lit ''null'')) \<and>
   JSON_parse null_text_world (lit ''null'') = Inr JNull \<and>
   attempt null_text_world null_text_request 0 \<noteq> Inr JNull \<and>
   snd (getGeminiReview null_text_world (lit ''KEY'') (lit ''gemini-2.5-flash'') example_diff) =
     Inl (Error (lit ''Gemini API request has failed after multiple tries. Last raw response: null'')) \<and>
   sleeps (fst (getGeminiReview null_text_world (lit ''KEY'') (lit ''gemini-2.5-flash'')
                  example_diff)) = [2000, 4000] \<and>
   length (filter is_fetch
     (fst (getGeminiReview null_text_world (lit ''KEY'') (lit ''gemini-2.5-flash'')
             example_diff))) = 3"
proof -
  let ?e = "TypeError (lit ''Cannot read properties of '' @ lit ''null'' @
                       lit '' (reading '' @ [0x27] @ lit ''length'' @ [0x27] @ lit '')'')"
  have x: "extracted_text null_text_world req i = Some (JStr (lit ''null''))" for req i
    unfolding null_text_world_def
    by (rule extracted_text_response) (simp_all add: always_def)
  have p: "JSON_parse null_text_world (lit ''null'') = Inr JNull"
    by (simp add: null_text_world_def example_world_def example_parse_def)
  have a: "attempt null_text_world req i = Inl ?e" for req i
    using attempt_parsed [OF x, of req i] p by (simp add: get_prop_def nullish_def)
  have l: "last_raw null_text_world req = JStr (lit ''null'')" for req
    by (simp add: last_raw_def x)
  show ?thesis
    using getGeminiReview_exhausted [OF a a a, where k = "lit ''KEY''"
        and m = "lit ''gemini-2.5-flash''" and d = example_diff] p
    by (simp add: x a l exhaustion_error_def lit_append [symmetric])
qed

section \<open>The request\<close>

text \<open>
  Claim C7. Every attempt is one \<open>fetch\<close> call, a \<open>POST\<close>, and always the same
  request. Its URL is built from the model name and its body from the diff alone: two calls
  that differ only in the API key send the same URL and the same body. The key is the value
  of the \<open>X-Goog-Api-Key\<close> header.
\<close>
theorem api_key_only_in_header:
  "filter is_fetch (fst (getGeminiReview w k m d)) =
     replicate
       (case attempt w (gemini_request w k m d) 0 of
          Inr c \<Rightarrow> 1
        | Inl e0 \<Rightarrow> (case attempt w (gemini_request w k m d) 1 of Inr c \<Rightarrow> 2 | Inl e1 \<Rightarrow> 3))
       (Fetch (gemini_request w k m d)) \<and>
   http_method (gemini_request w k m d) = lit ''POST'' \<and>
   url (gemini_request w k m d) = apiUrl m \<and>
   body (gemini_request w k m d) = JSON_stringify w (payload d) \<and>
   url (gemini_request w k m d) = url (gemini_request w k' m d) \<and>
   body (gemini_request w k m d) = body (gemini_request w k' m d) \<and>
   headers (gemini_request w k m d) =
     [(lit ''Content-Type'', lit ''application/json''), (lit ''X-Goog-Api-Key'', k)]"
proof -
  have "filter is_fetch (fst (getGeminiReview w k m d)) =
     replicate
       (case attempt w (gemini_request w k m d) 0 of
          Inr c \<Rightarrow> 1
        | Inl e0 \<Rightarrow> (case attempt w (gemini_request w k m d) 1 of Inr c \<Rightarrow> 2 | Inl e1 \<Rightarrow> 3))
       (Fetch (gemini_request w k m d))"
    by (simp add: getGeminiReview_def retry_loop_unfold split: sum.splits)
  then show ?thesis by (simp add: gemini_request_def)
qed

section \<open>The diff threshold\<close>

text \<open>
  Claim C3. When the fetched diff is absent, empty or shorter than 10 code units,
  \<open>fetchCodeDiff\<close> returns \<open>null\<close>; otherwise it returns the diff unchanged. A run whose
  diff is insignificant makes no model call and no posting call, and ends normally right
  after the fetch.
\<close>
theorem insignificant_diff_ends_run:
  "(pulls_get w (pulls_get_request owner repo n) = Inr codeDiff \<longrightarrow>
      snd (fetchCodeDiff w owner repo n) =
        (if insignificant codeDiff then Inr None else Inr codeDiff)) \<and>
   (pulls_get w (diff_request w) = Inr codeDiff \<and> insignificant codeDiff \<longrightarrow>
      filter is_fetch (run w) = [] \<and> filter is_post (run w) = [] \<and>
      (eventName w = lit ''pull_request'' \<and>
       getOctokit w (getInput w (lit ''github-token'')) = None \<longrightarrow>
         run w =
           [Info (lit ''Fetching diffs from GitHub...''), PullsGet (diff_request w),
            Info (lit ''No significant diff found. Skipping validation.'')]))"
proof -
  have A: "pulls_get w (pulls_get_request owner repo n) = Inr codeDiff \<longrightarrow>
      snd (fetchCodeDiff w owner repo n) =
        (if insignificant codeDiff then Inr None else Inr codeDiff)"
    by (auto simp: fetchCodeDiff_def pulls_get_request_def insignificant_def Let_def
        split: option.splits)
  have B: "fetchCodeDiff w (context_owner w) (context_repo w) (context_issue_number w) =
        ([Info (lit ''Fetching diffs from GitHub...''), PullsGet (diff_request w),
          Info (lit ''No significant diff found. Skipping validation.'')], Inr None)"
    if "pulls_get w (diff_request w) = Inr codeDiff" "insignificant codeDiff"
    using that
    by (auto simp: fetchCodeDiff_def diff_request_def pulls_get_request_def insignificant_def
        Let_def split: option.splits)
  have C: "filter is_fetch (run w) = [] \<and> filter is_post (run w) = [] \<and>
      (eventName w = lit ''pull_request'' \<and>
       getOctokit w (getInput w (lit ''github-token'')) = None \<longrightarrow>
         run w =
           [Info (lit ''Fetching diffs from GitHub...''), PullsGet (diff_request w),
            Info (lit ''No significant diff found. Skipping validation.'')])"
    if "pulls_get w (diff_request w) = Inr codeDiff" "insignificant codeDiff"
    by (simp add: run_def initializeAction_def Let_def B [OF that] split: option.splits)
  from A C show ?thesis by blast
qed

text \<open>The theorem at a concrete input.\<close>
theorem insignificant_diff_ends_run_witness:
  "pulls_get (example_world (lit ''tiny'') third_time_lucky None None)
     (diff_request (example_world (lit ''tiny'') third_time_lucky None None)) =
     Inr (Some (lit ''tiny'')) \<and>
   insignificant (Some (lit ''tiny'')) \<and>
   snd (fetchCodeDiff (example_world (lit ''tiny'') third_time_lucky None None)
          (lit ''octo'') (lit ''demo'') 7) = Inr None \<and>
   run (example_world (lit ''tiny'') third_time_lucky None None) =
     [Info (lit ''Fetching diffs from GitHub...''),
      PullsGet (diff_request (example_world (lit ''tiny'') third_time_lucky None None)),
      Info (lit ''No significant diff found. Skipping validation.'')] \<and>
   \<not> insignificant (Some example_diff) \<and>
   snd (fetchCodeDiff (example_world example_diff third_time_lucky None None)
          (lit ''octo'') (lit ''demo'') 7) = Inr (Some example_diff)"
proof -
  let ?w = "example_world (lit ''tiny'') third_time_lucky None None"
  let ?v = "example_world example_diff third_time_lucky None None"
  have i: "insignificant (Some (lit ''tiny''))"
    by (simp add: insignificant_def lit_def)
  have j: "\<not> insignificant (Some example_diff)"
    by (simp add: insignificant_def length_example_diff)
  have p: "pulls_get ?w a = Inr (Some (lit ''tiny''))" for a
    by (simp add: example_world_def)
  have q: "pulls_get ?v a = Inr (Some example_diff)" for a
    by (simp add: example_world_def)
  have e: "eventName ?w = lit ''pull_request''"
    "getOctokit ?w (getInput ?w (lit ''github-token'')) = None"
    by (simp_all add: example_world_def)
  show ?thesis
    using insignificant_diff_ends_run [of ?w "lit ''octo''" "lit ''demo''" 7 "Some (lit ''tiny'')"]
      insignificant_diff_ends_run [of ?v "lit ''octo''" "lit ''demo''" 7 "Some example_diff"]
      i j p q e
    by simp
qed

section \<open>Posting\<close>

text \<open>
  Claim C4. On an empty findings list \<open>postReviewComments\<close> makes exactly one posting
  call, an issue comment whose body says that no critical issues were found, and creates no
  review.
\<close>
theorem no_findings_single_comment:
  "postReviewComments w owner repo pn inum (JArr []) =
     (case createComment w \<lparr>cc_owner = owner, cc_repo = repo, cc_issue_number = inum,
                             cc_body = no_issues_body\<rparr> of
        None \<Rightarrow>
          ([CreateComment \<lparr>cc_owner = owner, cc_repo = repo, cc_issue_number = inum,
                           cc_body = no_issues_body\<rparr> None,
            Info (lit ''No comments generated; posted a positive summary comment.'')],
           Inr ())
      | Some e \<Rightarrow>
          ([CreateComment \<lparr>cc_owner = owner, cc_repo = repo, cc_issue_number = inum,
                           cc_body = no_issues_body\<rparr> (Some e)],
           Inl e)) \<and>
   filter is_post (fst (postReviewComments w owner repo pn inum (JArr []))) =
     [CreateComment \<lparr>cc_owner = owner, cc_repo = repo, cc_issue_number = inum,
                     cc_body = no_issues_body\<rparr>
        (createComment w \<lparr>cc_owner = owner, cc_repo = repo, cc_issue_number = inum,
                           cc_body = no_issues_body\<rparr>)] \<and>
   filter is_review (fst (postReviewComments w owner repo pn inum (JArr []))) = [] \<and>
   no_issues_body =
     (review_heading @ lit ''\<newline>\<newline>'') @ lit ''No critical issues found.'' @
     lit '' **Looks good!**''"
  by (simp add: postReviewComments_def array_map_def no_issues_body_def lit_def
      split: option.splits)






text \<open>
  Claim C8. A call of \<open>postReviewComments\<close> that returns normally has made exactly one
  posting call that the collaborator accepted: the no-issues comment, the inline review, or
  the fallback comment.
\<close>

theorem success_posts_exactly_once:
  assumes "snd (postReviewComments w owner repo pn inum v) = Inr ()"
  shows "length (filter is_successful_post (fst (postReviewComments w owner repo pn inum v))) = 1 \<and>
    (\<exists>gcs. array_map v github_comment_of = Inr gcs \<and>
       (filter is_successful_post (fst (postReviewComments w owner repo pn inum v)) =
          [CreateComment \<lparr>cc_owner = owner, cc_repo = repo, cc_issue_number = inum,
                          cc_body = no_issues_body\<rparr> None] \<and> gcs = [] \<or>
        filter is_successful_post (fst (postReviewComments w owner repo pn inum v)) =
          [CreateReview \<lparr>cr_owner = owner, cr_repo = repo, cr_pull_number = pn,
                         cr_event = lit ''COMMENT'', cr_body = reviewSummary (length gcs),
                         cr_comments = gcs\<rparr> None] \<and> gcs \<noteq> [] \<or>
        (\<exists>fb. fallbackBody w gcs = Inr fb \<and>
           filter is_successful_post (fst (postReviewComments w owner repo pn inum v)) =
             [CreateComment \<lparr>cc_owner = owner, cc_repo = repo, cc_issue_number = inum,
                             cc_body = fb\<rparr> None]) \<and> gcs \<noteq> []))"
proof (cases "array_map v github_comment_of")
  case (Inl e)
  with assms show ?thesis by (simp add: post_throws)
next
  case (Inr gcs)
  note pm = post_mapped [OF Inr, of w owner repo pn inum]
  show ?thesis
  proof (cases "gcs = []")
    case True
    with assms pm show ?thesis
      by (cases "createComment w \<lparr>cc_owner = owner, cc_repo = repo, cc_issue_number = inum,
                                cc_body = no_issues_body\<rparr>") (simp_all add: Inr)
  next
    case False
    show ?thesis
    proof (cases "createReview w \<lparr>cr_owner = owner, cr_repo = repo, cr_pull_number = pn,
                               cr_event = lit ''COMMENT'',
                               cr_body = reviewSummary (length gcs), cr_comments = gcs\<rparr>")
      case None
      with False pm show ?thesis by (simp add: Inr)
    next
      case (Some error)
      show ?thesis
      proof (cases "status error = JNum 422")
        case True
        show ?thesis
        proof (cases "fallbackBody w gcs")
          case (Inl e)
          with True Some False assms pm show ?thesis by simp
        next
          case fb: (Inr fb)
          with True Some False assms pm show ?thesis
            by (cases "createComment w \<lparr>cc_owner = owner, cc_repo = repo,
                                         cc_issue_number = inum, cc_body = fb\<rparr>")
              (simp_all add: Inr)
        qed
      next
        case no: False
        with Some False assms pm show ?thesis by simp
      qed
    qed
  qed
qed

text \<open>The theorem at a concrete input.\<close>
theorem success_posts_exactly_once_witness:
  "snd (postReviewComments (example_world example_diff third_time_lucky None None)
          (lit ''octo'') (lit ''demo'') 7 7 (JArr [])) = Inr () \<and>
   length (filter is_successful_post
     (fst (postReviewComments (example_world example_diff third_time_lucky None None)
             (lit ''octo'') (lit ''demo'') 7 7 (JArr [])))) = 1 \<and>
   snd (postReviewComments rejected_review_world
          (lit ''octo'') (lit ''demo'') 7 7 (JArr [finding_value example_finding])) = Inr () \<and>
   length (filter is_successful_post
     (fst (postReviewComments rejected_review_world
             (lit ''octo'') (lit ''demo'') 7 7 (JArr [finding_value example_finding])))) = 1"
proof -
  have s: "snd (postReviewComments (example_world example_diff third_time_lucky None None)
          (lit ''octo'') (lit ''demo'') 7 7 (JArr [])) = Inr ()"
    by (simp add: postReviewComments_def array_map_def example_world_def)
  have ne: "[example_finding] \<noteq> []" by simp
  have t: "snd (postReviewComments rejected_review_world
          (lit ''octo'') (lit ''demo'') 7 7 (JArr [finding_value example_finding])) = Inr ()"
    using post_findings [OF ne, of rejected_review_world "lit ''octo''" "lit ''demo''" 7 7]
    by (simp add: rejected_review_world_def example_world_def unprocessable_def)
  from success_posts_exactly_once [OF s] success_posts_exactly_once [OF t] s t
  show ?thesis by simp
qed

end
